theory Spec2Isabelle
  imports Main
begin

section \<open>The evaluation stage: stage\_04\_model\_evaluation.py\<close>

text \<open>
  The stage is one procedure, \<open>EvaluationPipeline.main\<close>. It talks to collaborators that
  live outside the file: the configuration manager and the evaluation component of the
  package, the experiment-tracking backend (dagshub and mlflow), the working directory
  (two JSON files that are read, one marker file that is appended to) and one child
  process (\<open>dvc repro training\<close>).

  The embedding keeps the procedure as it is written: a sequence of statements in a monad
  of state and exceptions. The state is the working directory together with the list of
  the calls made to the collaborators, in the order they were made. What a collaborator
  returns is an input of the run (the record \<open>env\<close>).

  The exceptions of the model are these. Reading a JSON file raises \<open>JSONDecodeError\<close>,
  or one of the errors that the \<open>except json.JSONDecodeError\<close> clauses let through
  (\<open>UnicodeDecodeError\<close> for bytes that are not UTF-8, \<open>RecursionError\<close> for a text
  nested too deeply, \<open>ValueError\<close> for an integer with too many digits). Python's own
  operations raise on the data: \<open>.items()\<close> of a value that is no dict, \<open>len\<close> of a
  value that has no length, \<open>.decode()\<close> of bytes that are not UTF-8. The tracking
  backend raises \<open>MlflowException\<close> for a metric whose value it does not take and for a
  parameter that the run has already logged with another value.
  \<open>subprocess.run(check=True)\<close> raises \<open>CalledProcessError\<close>. The configuration
  manager, the evaluation component, \<open>dagshub.init\<close>, \<open>mlflow.start_run\<close>, the
  existence checks and the append to the marker file do not raise in the model.

  The calls to \<open>logger\<close> only print; they are left out of the list of calls. What they
  evaluate for their message is kept where it can raise: the decoding of the child
  process's output. The working directory is the one \<open>main\<close> finds once the evaluation
  has returned, and the child process leaves it as it is: the only write is the append
  that \<open>main\<close> itself makes.
\<close>

subsection \<open>Python values\<close>

text \<open>A float is carried around and never computed with: \<open>Finite m e\<close> is \<open>m * 2 ^ e\<close>.\<close>

datatype pyfloat = Finite int int | Infinity bool | NaN

text \<open>
  The values \<open>json.load\<close> can return, which are also the values the model lets the
  evaluation component return. A \<open>str\<close> is the list of its characters, a \<open>dict\<close> the
  list of its items in insertion order (its keys are distinct).
\<close>

datatype pyval =
    PNone
  | PBool bool
  | PInt int
  | PFloat pyfloat
  | PStr string
  | PList "pyval list"
  | PDict "(string \<times> pyval) list"

text \<open>
  The exceptions of a run. \<open>MlflowException\<close> is what the tracking backend raises; the
  three after \<open>JSONDecodeError\<close> are the other errors that reading a JSON file raises.
\<close>

datatype exn =
    JSONDecodeError string
  | UnicodeDecodeError
  | RecursionError
  | ValueError
  | AttributeError
  | TypeError
  | FileNotFoundError
  | CalledProcessError int
  | MlflowException

text \<open>\<open>bool(v)\<close>, as \<open>if results and ...\<close> evaluates it.\<close>

fun truthy :: "pyval \<Rightarrow> bool" where
  "truthy PNone = False"
| "truthy (PBool b) = b"
| "truthy (PInt i) = (i \<noteq> 0)"
| "truthy (PFloat (Finite m e)) = (m \<noteq> 0)"
| "truthy (PFloat (Infinity s)) = True"
| "truthy (PFloat NaN) = True"
| "truthy (PStr s) = (s \<noteq> [])"
| "truthy (PList xs) = (xs \<noteq> [])"
| "truthy (PDict kvs) = (kvs \<noteq> [])"

text \<open>\<open>isinstance(v, dict)\<close>.\<close>

fun isinstance_dict :: "pyval \<Rightarrow> bool" where
  "isinstance_dict (PDict kvs) = True"
| "isinstance_dict v = False"

text \<open>\<open>isinstance(v, (int, float))\<close>; \<open>bool\<close> is a subclass of \<open>int\<close>.\<close>

fun isinstance_int_float :: "pyval \<Rightarrow> bool" where
  "isinstance_int_float (PBool b) = True"
| "isinstance_int_float (PInt i) = True"
| "isinstance_int_float (PFloat f) = True"
| "isinstance_int_float v = False"

text \<open>\<open>len(v)\<close>: a \<open>TypeError\<close> for a value without a length.\<close>

fun py_len :: "pyval \<Rightarrow> exn + nat" where
  "py_len (PStr s) = Inr (length s)"
| "py_len (PList xs) = Inr (length xs)"
| "py_len (PDict kvs) = Inr (length kvs)"
| "py_len v = Inl TypeError"

text \<open>
  The elements \<open>enumerate(v)\<close> goes through: the elements of a list, the keys of a dict,
  the characters of a str.
\<close>

fun py_iter :: "pyval \<Rightarrow> exn + pyval list" where
  "py_iter (PStr s) = Inr (map (\<lambda>c. PStr [c]) s)"
| "py_iter (PList xs) = Inr xs"
| "py_iter (PDict kvs) = Inr (map (\<lambda>kv. PStr (fst kv)) kvs)"
| "py_iter v = Inl TypeError"

text \<open>\<open>v.items()\<close>: an \<open>AttributeError\<close> for a value that is no dict.\<close>

fun py_items :: "pyval \<Rightarrow> exn + (string \<times> pyval) list" where
  "py_items (PDict kvs) = Inr kvs"
| "py_items v = Inl AttributeError"

subsection \<open>Decimal numbers and the timestamp\<close>

definition digit_char :: "nat \<Rightarrow> char" where
  "digit_char d = ''0123456789'' ! (d mod 10)"

text \<open>\<open>str(n)\<close> for a natural number, as the f-string \<open>{idx}\<close> prints it.\<close>

fun decimal :: "nat \<Rightarrow> string" where
  "decimal n = (if n < 10 then [digit_char n] else decimal (n div 10) @ [digit_char n])"

declare decimal.simps [simp del]

text \<open>The format \<open>%0wd\<close>.\<close>

definition zero_padded :: "nat \<Rightarrow> nat \<Rightarrow> string" where
  "zero_padded w n = replicate (w - length (decimal n)) (CHR ''0'') @ decimal n"

text \<open>What \<open>datetime.datetime.now()\<close> returns: a naive local time.\<close>

record datetime =
  year :: nat
  month :: nat
  day :: nat
  hour :: nat
  minute :: nat
  second :: nat
  microsecond :: nat

text \<open>
  \<open>datetime.isoformat()\<close> with its default separator: \<open>YYYY-MM-DDTHH:MM:SS\<close>, followed
  by \<open>.ffffff\<close> when the microsecond is not zero.
\<close>

definition isoformat :: "datetime \<Rightarrow> string" where
  "isoformat d =
     zero_padded 4 (year d) @ ''-'' @ zero_padded 2 (month d) @ ''-'' @ zero_padded 2 (day d)
     @ ''T'' @ zero_padded 2 (hour d) @ '':'' @ zero_padded 2 (minute d) @ '':''
     @ zero_padded 2 (second d)
     @ (if microsecond d = 0 then [] else ''.'' @ zero_padded 6 (microsecond d))"

subsection \<open>UTF-8\<close>

text \<open>
  \<open>bytes.decode()\<close> takes the well-formed UTF-8 byte sequences: no overlong forms, no
  surrogates, nothing above U+10FFFF. A \<open>string\<close> of the model is a list of bytes when it
  is the content of a file or the output of the child process.
\<close>

definition continuation :: "nat \<Rightarrow> bool" where
  "continuation b = (128 \<le> b \<and> b \<le> 191)"

fun well_formed :: "nat list \<Rightarrow> bool" where
  "well_formed [] = True"
| "well_formed (b # bs) =
     (if b < 128 then well_formed bs
      else if 194 \<le> b \<and> b \<le> 223 then
        (case bs of c1 # r \<Rightarrow> continuation c1 \<and> well_formed r | _ \<Rightarrow> False)
      else if b = 224 then
        (case bs of c1 # c2 # r \<Rightarrow> 160 \<le> c1 \<and> c1 \<le> 191 \<and> continuation c2 \<and> well_formed r
         | _ \<Rightarrow> False)
      else if (225 \<le> b \<and> b \<le> 236) \<or> b = 238 \<or> b = 239 then
        (case bs of c1 # c2 # r \<Rightarrow> continuation c1 \<and> continuation c2 \<and> well_formed r
         | _ \<Rightarrow> False)
      else if b = 237 then
        (case bs of c1 # c2 # r \<Rightarrow> 128 \<le> c1 \<and> c1 \<le> 159 \<and> continuation c2 \<and> well_formed r
         | _ \<Rightarrow> False)
      else if b = 240 then
        (case bs of c1 # c2 # c3 # r \<Rightarrow>
           144 \<le> c1 \<and> c1 \<le> 191 \<and> continuation c2 \<and> continuation c3 \<and> well_formed r
         | _ \<Rightarrow> False)
      else if 241 \<le> b \<and> b \<le> 243 then
        (case bs of c1 # c2 # c3 # r \<Rightarrow>
           continuation c1 \<and> continuation c2 \<and> continuation c3 \<and> well_formed r
         | _ \<Rightarrow> False)
      else if b = 244 then
        (case bs of c1 # c2 # c3 # r \<Rightarrow>
           128 \<le> c1 \<and> c1 \<le> 143 \<and> continuation c2 \<and> continuation c3 \<and> well_formed r
         | _ \<Rightarrow> False)
      else False)"

definition utf8_valid :: "string \<Rightarrow> bool" where
  "utf8_valid bytes = well_formed (map of_char bytes)"

subsection \<open>The run: inputs, state and calls\<close>

text \<open>The two fields of the evaluation configuration that the stage reads.\<close>

record eval_config =
  params_image_size :: pyval
  params_batch_size :: pyval

text \<open>The child process when it has ended; its output is bytes.\<close>

record completed_process =
  returncode :: int
  stdout :: string
  stderr :: string

text \<open>What reading a JSON file raises.\<close>

datatype load_error = DecodeError string | UnicodeError | TooDeep | TooManyDigits

fun load_exn :: "load_error \<Rightarrow> exn" where
  "load_exn (DecodeError msg) = JSONDecodeError msg"
| "load_exn UnicodeError = UnicodeDecodeError"
| "load_exn TooDeep = RecursionError"
| "load_exn TooManyDigits = ValueError"

text \<open>
  What the collaborators hand to the run: the configuration; the value returned by
  \<open>evaluation.evaluation()\<close>; what reading and parsing the bytes of a file gives (\<open>open\<close>
  and \<open>json.load\<close>); \<open>repr\<close> of a value that is not a str; whether the tracking
  backend takes a value as the value of a metric; the clock; and how the \<open>dvc\<close> process
  ends.
\<close>

record env =
  get_evaluation_config :: eval_config
  evaluation_result :: pyval
  json_loads :: "string \<Rightarrow> load_error + pyval"
  py_repr :: "pyval \<Rightarrow> string"
  takes_metric :: "pyval \<Rightarrow> bool"
  now :: datetime
  dvc :: completed_process

text \<open>\<open>str(v)\<close>: a str is its own \<open>str\<close>, any other value gives its \<open>repr\<close>.\<close>

definition py_str :: "env \<Rightarrow> pyval \<Rightarrow> string" where
  "py_str env v = (case v of PStr s \<Rightarrow> s | _ \<Rightarrow> py_repr env v)"

text \<open>
  The value passed to \<open>mlflow.log_param\<close>: the object itself, or \<open>str(v)\<close> of it.
\<close>

datatype param_value = Raw pyval | Str pyval

text \<open>
  The tracking backend stores a parameter as a string, \<open>str\<close> of what it is given; for
  both forms that is \<open>str(v)\<close>.
\<close>

fun stored :: "env \<Rightarrow> param_value \<Rightarrow> string" where
  "stored env (Raw v) = py_str env v"
| "stored env (Str v) = py_str env v"

datatype run_status = FINISHED | FAILED

text \<open>
  The calls to the collaborators, one constructor for each kind of call in \<open>main\<close>. A
  call to the tracking backend is in the list when the backend has taken it.
\<close>

datatype event =
    GetEvaluationConfig
  | NewEvaluation
  | DagshubInit
  | StartRun string
  | EndRun run_status
  | LogParam string param_value
  | LogMetric string pyval
  | RunEvaluation
  | PathExists string
  | JsonLoad string
  | AppendWrite string string
  | SubprocessRun "string list"

text \<open>
  The state: the calls made so far, oldest first, and the files of the working directory
  with their contents.
\<close>

record world =
  trace :: "event list"
  files :: "string \<rightharpoonup> string"

type_synonym 'a io = "world \<Rightarrow> (exn + 'a) \<times> world"

definition return_io :: "'a \<Rightarrow> 'a io" where
  "return_io x w = (Inr x, w)"

definition raise :: "exn \<Rightarrow> 'a io" where
  "raise e w = (Inl e, w)"

text \<open>Sequencing: an exception skips what follows, the state reached is kept.\<close>

definition bind_io :: "'a io \<Rightarrow> ('a \<Rightarrow> 'b io) \<Rightarrow> 'b io" where
  "bind_io m f w = (case m w of (Inl e, w') \<Rightarrow> (Inl e, w') | (Inr x, w') \<Rightarrow> f x w')"

definition lift_io :: "exn + 'a \<Rightarrow> 'a io" where
  "lift_io r w = (r, w)"

definition emit :: "event \<Rightarrow> unit io" where
  "emit e w = (Inr (), w\<lparr>trace := trace w @ [e]\<rparr>)"

text \<open>A block of statements.\<close>

fun block :: "unit io list \<Rightarrow> unit io" where
  "block [] = return_io ()"
| "block (s # ss) = bind_io s (\<lambda>_. block ss)"

text \<open>A \<open>for\<close> loop over a list.\<close>

definition for_each :: "'a list \<Rightarrow> ('a \<Rightarrow> unit io) \<Rightarrow> unit io" where
  "for_each xs body = block (map body xs)"

text \<open>
  \<open>try: body  except E as e: handler\<close>. The clause is a partial function: \<open>None\<close> for an
  exception it does not match, which then goes on to the caller. An exception raised by
  the handler goes on to the caller too.
\<close>

definition try_except :: "'a io \<Rightarrow> (exn \<Rightarrow> 'a io option) \<Rightarrow> 'a io" where
  "try_except body clause w =
     (case body w of
        (Inl e, w') \<Rightarrow> (case clause e of Some handler \<Rightarrow> handler w' | None \<Rightarrow> (Inl e, w'))
      | (Inr x, w') \<Rightarrow> (Inr x, w'))"

fun except_JSONDecodeError :: "(exn \<Rightarrow> 'a io) \<Rightarrow> exn \<Rightarrow> 'a io option" where
  "except_JSONDecodeError handler (JSONDecodeError msg) = Some (handler (JSONDecodeError msg))"
| "except_JSONDecodeError handler e = None"

fun except_CalledProcessError :: "(exn \<Rightarrow> 'a io) \<Rightarrow> exn \<Rightarrow> 'a io option" where
  "except_CalledProcessError handler (CalledProcessError rc) =
     Some (handler (CalledProcessError rc))"
| "except_CalledProcessError handler e = None"

subsection \<open>The collaborators' calls\<close>

text \<open>
  The tracking backend refuses a call in two cases: a metric whose value it does not take,
  and a parameter whose key the run has logged before with another stored value. The
  calls it has taken are the ones in the list of calls.
\<close>

fun changes_param :: "env \<Rightarrow> string \<Rightarrow> param_value \<Rightarrow> event \<Rightarrow> bool" where
  "changes_param env key v (LogParam k v') = (k = key \<and> stored env v' \<noteq> stored env v)"
| "changes_param env key v e = False"

fun refused :: "env \<Rightarrow> event list \<Rightarrow> event \<Rightarrow> bool" where
  "refused env t (LogParam key v) = list_ex (changes_param env key v) t"
| "refused env t (LogMetric key v) = (\<not> takes_metric env v)"
| "refused env t e = False"

definition backend_call :: "env \<Rightarrow> event \<Rightarrow> unit io" where
  "backend_call env e w = (if refused env (trace w) e then raise MlflowException w else emit e w)"

definition mlflow_log_param :: "env \<Rightarrow> string \<Rightarrow> param_value \<Rightarrow> unit io" where
  "mlflow_log_param env key v = backend_call env (LogParam key v)"

definition mlflow_log_metric :: "env \<Rightarrow> string \<Rightarrow> pyval \<Rightarrow> unit io" where
  "mlflow_log_metric env key v = backend_call env (LogMetric key v)"

text \<open>
  \<open>with mlflow.start_run(run_name=...)\<close>: a new run, which is ended when the body is
  left, as \<open>FAILED\<close> when an exception leaves it, and the exception goes on.
\<close>

definition with_start_run :: "string \<Rightarrow> unit io \<Rightarrow> unit io" where
  "with_start_run run_name body =
     bind_io (emit (StartRun run_name)) (\<lambda>_ w.
       case body w of
         (Inl e, w') \<Rightarrow> bind_io (emit (EndRun FAILED)) (\<lambda>_. raise e) w'
       | (Inr x, w') \<Rightarrow> emit (EndRun FINISHED) w')"

definition evaluation :: "env \<Rightarrow> pyval io" where
  "evaluation env = bind_io (emit RunEvaluation) (\<lambda>_. return_io (evaluation_result env))"

text \<open>\<open>Path(p).exists()\<close>.\<close>

definition path_exists :: "string \<Rightarrow> bool io" where
  "path_exists p = bind_io (emit (PathExists p)) (\<lambda>_ w. (Inr (files w p \<noteq> None), w))"

text \<open>\<open>with open(p, "r") as f: json.load(f)\<close>.\<close>

definition json_load :: "env \<Rightarrow> string \<Rightarrow> pyval io" where
  "json_load env p =
     bind_io (emit (JsonLoad p)) (\<lambda>_ w.
       case files w p of
         None \<Rightarrow> (Inl FileNotFoundError, w)
       | Some content \<Rightarrow>
           (case json_loads env content of
              Inl err \<Rightarrow> (Inl (load_exn err), w)
            | Inr v \<Rightarrow> (Inr v, w)))"

text \<open>\<open>with open(p, "a") as tf: tf.write(s)\<close>: the file is created when it is missing.\<close>

definition append_write :: "string \<Rightarrow> string \<Rightarrow> unit io" where
  "append_write p s =
     bind_io (emit (AppendWrite p s)) (\<lambda>_ w.
       (Inr (), w\<lparr>files := (files w)(p \<mapsto> (case files w p of None \<Rightarrow> s | Some old \<Rightarrow> old @ s))\<rparr>))"

text \<open>\<open>subprocess.run(cmd, check=True, ...)\<close>.\<close>

definition subprocess_run :: "env \<Rightarrow> string list \<Rightarrow> completed_process io" where
  "subprocess_run env cmd =
     bind_io (emit (SubprocessRun cmd)) (\<lambda>_.
       if returncode (dvc env) \<noteq> 0 then raise (CalledProcessError (returncode (dvc env)))
       else return_io (dvc env))"

text \<open>\<open>output.decode()\<close>.\<close>

definition decode :: "string \<Rightarrow> string io" where
  "decode bytes = (if utf8_valid bytes then return_io bytes else raise UnicodeDecodeError)"

subsection \<open>EvaluationPipeline.main\<close>

definition STAGE_NAME :: string where
  "STAGE_NAME = ''Evaluation''"

definition scores_file :: string where
  "scores_file = ''scores.json''"

definition incorrect_file :: string where
  "incorrect_file = ''incorrect_predictions.json''"

definition trigger_file :: string where
  "trigger_file = ''retrain_trigger.txt''"

text \<open>Step 6 of the source (lines 71 to 80).\<close>

definition log_evaluation_results :: "env \<Rightarrow> pyval \<Rightarrow> unit io" where
  "log_evaluation_results env results =
     (if truthy results \<and> isinstance_dict results
      then bind_io (lift_io (py_items results)) (\<lambda>items.
             for_each items (\<lambda>(metric_name, metric_value).
               if isinstance_int_float metric_value
               then mlflow_log_metric env metric_name metric_value
               else mlflow_log_param env metric_name (Str metric_value)))
      else return_io ())"

text \<open>Step 7 of the source (lines 84 to 95).\<close>

definition log_scores :: "env \<Rightarrow> unit io" where
  "log_scores env =
     bind_io (path_exists scores_file) (\<lambda>found.
       if found
       then try_except
              (bind_io (json_load env scores_file) (\<lambda>scores.
                 bind_io (lift_io (py_items scores)) (\<lambda>items.
                   for_each items (\<lambda>(metric, v). mlflow_log_metric env metric v))))
              (except_JSONDecodeError (\<lambda>e. return_io ()))
       else return_io ())"

text \<open>The line written to the marker file, and the command that is run.\<close>

definition retraining_message :: "env \<Rightarrow> string" where
  "retraining_message env = ''Retraining triggered at '' @ isoformat (now env) @ [CHR 0x0A]"

definition dvc_command :: "string list" where
  "dvc_command = [''dvc'', ''repro'', ''training'']"

text \<open>
  The retraining trigger (lines 116 to 144). After the process has ended well its two
  outputs are decoded for the log (lines 134 and 135). The handler decodes the error
  output for its message (line 143; it is the \<open>stderr\<close> of the process that the
  exception carries) and then raises the exception again.
\<close>

definition trigger_retraining :: "env \<Rightarrow> unit io" where
  "trigger_retraining env =
     try_except
       (block
          [append_write trigger_file (retraining_message env),
           bind_io (subprocess_run env dvc_command) (\<lambda>result.
             bind_io (decode (stdout result)) (\<lambda>stdout_decoded.
               bind_io (decode (stderr result)) (\<lambda>stderr_decoded. return_io ())))])
       (except_CalledProcessError (\<lambda>e.
          bind_io (decode (stderr (dvc env))) (\<lambda>message. raise e)))"

text \<open>The f-string \<open>f"incorrect_prediction_{idx}"\<close>.\<close>

definition incorrect_prediction_key :: "nat \<Rightarrow> string" where
  "incorrect_prediction_key idx = ''incorrect_prediction_'' @ decimal idx"

text \<open>Step 8 of the source (lines 99 to 148).\<close>

definition log_incorrect_predictions :: "env \<Rightarrow> unit io" where
  "log_incorrect_predictions env =
     bind_io (path_exists incorrect_file) (\<lambda>found.
       if found
       then try_except
              (bind_io (json_load env incorrect_file) (\<lambda>incorrect_data.
                 bind_io (lift_io (py_len incorrect_data)) (\<lambda>num_incorrect.
                   block
                     [mlflow_log_metric env ''num_incorrect_predictions''
                        (PInt (int num_incorrect)),
                      bind_io (lift_io (py_iter incorrect_data)) (\<lambda>preds.
                        for_each (enumerate 0 preds) (\<lambda>(idx, pred).
                          mlflow_log_param env (incorrect_prediction_key idx) (Raw pred))),
                      if num_incorrect > 5 then trigger_retraining env else return_io ()])))
              (except_JSONDecodeError (\<lambda>e. return_io ()))
       else return_io ())"

definition main :: "env \<Rightarrow> unit io" where
  "main env =
     block
       [emit GetEvaluationConfig,
        emit NewEvaluation,
        emit DagshubInit,
        with_start_run STAGE_NAME
          (block
             [mlflow_log_param env ''image_size''
                (Raw (params_image_size (get_evaluation_config env))),
              mlflow_log_param env ''batch_size''
                (Raw (params_batch_size (get_evaluation_config env))),
              bind_io (evaluation env) (log_evaluation_results env),
              log_scores env,
              log_incorrect_predictions env])]"

text \<open>A run starts with no call made yet, in a working directory \<open>fs\<close>.\<close>

definition run :: "env \<Rightarrow> (string \<rightharpoonup> string) \<Rightarrow> (exn + unit) \<times> world" where
  "run env fs = main env \<lparr>trace = [], files = fs\<rparr>"

text \<open>What a run returns or raises, the calls it makes, and the files it leaves.\<close>

definition outcome :: "env \<Rightarrow> (string \<rightharpoonup> string) \<Rightarrow> exn + unit" where
  "outcome env fs = fst (run env fs)"

definition calls :: "env \<Rightarrow> (string \<rightharpoonup> string) \<Rightarrow> event list" where
  "calls env fs = trace (snd (run env fs))"

definition files_after :: "env \<Rightarrow> (string \<rightharpoonup> string) \<Rightarrow> (string \<rightharpoonup> string)" where
  "files_after env fs = files (snd (run env fs))"

subsection \<open>What the claims speak of\<close>

text \<open>
  The retraining trigger is seen in the calls of a run: the append to the marker file and
  the start of a child process.
\<close>

fun is_trigger_append :: "event \<Rightarrow> bool" where
  "is_trigger_append (AppendWrite p s) = (p = trigger_file)"
| "is_trigger_append e = False"

fun is_subprocess_run :: "event \<Rightarrow> bool" where
  "is_subprocess_run (SubprocessRun cmd) = True"
| "is_subprocess_run e = False"

definition marker_appended :: "event list \<Rightarrow> bool" where
  "marker_appended t = list_ex is_trigger_append t"

definition process_invoked :: "event list \<Rightarrow> bool" where
  "process_invoked t = list_ex is_subprocess_run t"

text \<open>The calls that log to the tracking backend.\<close>

fun is_log_call :: "event \<Rightarrow> bool" where
  "is_log_call (LogParam k v) = True"
| "is_log_call (LogMetric k v) = True"
| "is_log_call e = False"

text \<open>Some call that satisfies \<open>P\<close> is made before some call that satisfies \<open>Q\<close>.\<close>

fun occurs_before :: "('a \<Rightarrow> bool) \<Rightarrow> ('a \<Rightarrow> bool) \<Rightarrow> 'a list \<Rightarrow> bool" where
  "occurs_before P Q [] = False"
| "occurs_before P Q (x # xs) = ((P x \<and> list_ex Q xs) \<or> occurs_before P Q xs)"

text \<open>
  Inputs for the examples. The reader of files knows three JSON texts and refuses bytes
  that are not UTF-8; \<open>repr\<close> is right on \<open>None\<close>, the booleans and the integers, which
  is all the examples log twice; the backend takes integers and floats as metric values.
\<close>

definition example_json_loads :: "string \<Rightarrow> load_error + pyval" where
  "example_json_loads s =
     (if \<not> utf8_valid s then Inl UnicodeError
      else if s = ''[]'' then Inr (PList [])
      else if s = ''{}'' then Inr (PDict [])
      else if s = ''[1, 2, 3, 4, 5, 6]''
        then Inr (PList [PInt 1, PInt 2, PInt 3, PInt 4, PInt 5, PInt 6])
      else Inl (DecodeError ''Expecting value''))"

definition example_repr :: "pyval \<Rightarrow> string" where
  "example_repr v =
     (case v of
        PNone \<Rightarrow> ''None''
      | PBool b \<Rightarrow> (if b then ''True'' else ''False'')
      | PInt i \<Rightarrow> (if i < 0 then ''-'' @ decimal (nat (- i)) else decimal (nat i))
      | _ \<Rightarrow> ''...'')"

definition example_takes_metric :: "pyval \<Rightarrow> bool" where
  "example_takes_metric v = (case v of PInt i \<Rightarrow> True | PFloat f \<Rightarrow> True | _ \<Rightarrow> False)"

definition example_env :: "pyval \<Rightarrow> int \<Rightarrow> env" where
  "example_env results rc =
     \<lparr>get_evaluation_config =
        \<lparr>params_image_size = PList [PInt 224, PInt 224, PInt 3], params_batch_size = PInt 16\<rparr>,
      evaluation_result = results,
      json_loads = example_json_loads,
      py_repr = example_repr,
      takes_metric = example_takes_metric,
      now = \<lparr>year = 2024, month = 3, day = 9, hour = 7, minute = 5, second = 0,
              microsecond = 12\<rparr>,
      dvc = \<lparr>returncode = rc, stdout = [], stderr = []\<rparr>\<rparr>"

text \<open>A file of six entries.\<close>

definition six_entries :: string where
  "six_entries = ''[1, 2, 3, 4, 5, 6]''"

subsection \<open>The calls of each step\<close>

text \<open>
  The calls each step makes and what it returns, written as plain functions of the inputs
  and of the calls made before the step. The lemmas of the next section show that the
  procedure above makes exactly these calls.
\<close>

text \<open>Of the calls \<open>es\<close> made in turn after the calls \<open>t\<close>, the ones before the first refusal.\<close>

fun taken :: "env \<Rightarrow> event list \<Rightarrow> event list \<Rightarrow> event list" where
  "taken env t [] = []"
| "taken env t (e # es) = (if refused env t e then [] else e # taken env (t @ [e]) es)"

definition all_taken :: "env \<Rightarrow> event list \<Rightarrow> event list \<Rightarrow> bool" where
  "all_taken env t es = (taken env t es = es)"

definition preamble :: "env \<Rightarrow> event list" where
  "preamble env =
     [GetEvaluationConfig, NewEvaluation, DagshubInit, StartRun STAGE_NAME,
      LogParam ''image_size'' (Raw (params_image_size (get_evaluation_config env))),
      LogParam ''batch_size'' (Raw (params_batch_size (get_evaluation_config env))),
      RunEvaluation]"

definition result_call :: "string \<times> pyval \<Rightarrow> event" where
  "result_call kv =
     (if isinstance_int_float (snd kv) then LogMetric (fst kv) (snd kv)
      else LogParam (fst kv) (Str (snd kv)))"

definition results_calls :: "pyval \<Rightarrow> event list" where
  "results_calls r = (case r of PDict kvs \<Rightarrow> map result_call kvs | _ \<Rightarrow> [])"

definition score_call :: "string \<times> pyval \<Rightarrow> event" where
  "score_call kv = LogMetric (fst kv) (snd kv)"

text \<open>The metrics that scores.json asks to log, when it holds an object.\<close>

definition scores_logs :: "env \<Rightarrow> (string \<rightharpoonup> string) \<Rightarrow> event list" where
  "scores_logs env fs =
     (case fs scores_file of
        None \<Rightarrow> []
      | Some content \<Rightarrow>
          (case json_loads env content of
             Inl err \<Rightarrow> []
           | Inr v \<Rightarrow> (case v of PDict kvs \<Rightarrow> map score_call kvs | _ \<Rightarrow> [])))"

definition scores_calls :: "env \<Rightarrow> event list \<Rightarrow> (string \<rightharpoonup> string) \<Rightarrow> event list" where
  "scores_calls env t fs =
     (case fs scores_file of
        None \<Rightarrow> [PathExists scores_file]
      | Some content \<Rightarrow>
          [PathExists scores_file, JsonLoad scores_file]
          @ taken env (t @ [PathExists scores_file, JsonLoad scores_file]) (scores_logs env fs))"

definition scores_outcome :: "env \<Rightarrow> event list \<Rightarrow> (string \<rightharpoonup> string) \<Rightarrow> exn + unit" where
  "scores_outcome env t fs =
     (case fs scores_file of
        None \<Rightarrow> Inr ()
      | Some content \<Rightarrow>
          (case json_loads env content of
             Inl err \<Rightarrow> (case err of DecodeError msg \<Rightarrow> Inr () | _ \<Rightarrow> Inl (load_exn err))
           | Inr v \<Rightarrow>
               if \<not> isinstance_dict v then Inl AttributeError
               else if all_taken env (t @ [PathExists scores_file, JsonLoad scores_file])
                         (scores_logs env fs)
               then Inr () else Inl MlflowException))"

definition appended :: "(string \<rightharpoonup> string) \<Rightarrow> string \<Rightarrow> string \<Rightarrow> (string \<rightharpoonup> string)" where
  "appended fs p s = fs(p \<mapsto> (case fs p of None \<Rightarrow> s | Some old \<Rightarrow> old @ s))"

definition trigger_outcome :: "env \<Rightarrow> exn + unit" where
  "trigger_outcome env =
     (if returncode (dvc env) \<noteq> 0
      then (if utf8_valid (stderr (dvc env)) then Inl (CalledProcessError (returncode (dvc env)))
            else Inl UnicodeDecodeError)
      else (if utf8_valid (stdout (dvc env)) \<and> utf8_valid (stderr (dvc env)) then Inr ()
            else Inl UnicodeDecodeError))"

definition trigger_calls :: "env \<Rightarrow> event list" where
  "trigger_calls env =
     [AppendWrite trigger_file (retraining_message env), SubprocessRun dvc_command]"

definition prediction_call :: "nat \<times> pyval \<Rightarrow> event" where
  "prediction_call ip = LogParam (incorrect_prediction_key (fst ip)) (Raw (snd ip))"

text \<open>The length and the elements of the value in incorrect\_predictions.json, when it has them.\<close>

definition incorrect_read :: "env \<Rightarrow> (string \<rightharpoonup> string) \<Rightarrow> (nat \<times> pyval list) option" where
  "incorrect_read env fs =
     (case fs incorrect_file of
        None \<Rightarrow> None
      | Some content \<Rightarrow>
          (case json_loads env content of
             Inl err \<Rightarrow> None
           | Inr v \<Rightarrow>
               (case py_len v of
                  Inl e \<Rightarrow> None
                | Inr n \<Rightarrow> (case py_iter v of Inl e \<Rightarrow> None | Inr preds \<Rightarrow> Some (n, preds)))))"

text \<open>What the step asks the backend to log from the file.\<close>

definition incorrect_logs :: "env \<Rightarrow> (string \<rightharpoonup> string) \<Rightarrow> event list" where
  "incorrect_logs env fs =
     (case incorrect_read env fs of
        None \<Rightarrow> []
      | Some (n, preds) \<Rightarrow>
          LogMetric ''num_incorrect_predictions'' (PInt (int n))
          # map prediction_call (enumerate 0 preds))"

text \<open>
  The trigger is reached in the step that starts after the calls \<open>t\<close>: more than five
  entries are read and the backend takes what the step logs.
\<close>

definition fires :: "env \<Rightarrow> event list \<Rightarrow> (string \<rightharpoonup> string) \<Rightarrow> bool" where
  "fires env t fs =
     (case incorrect_read env fs of
        None \<Rightarrow> False
      | Some (n, preds) \<Rightarrow>
          5 < n \<and> all_taken env (t @ [PathExists incorrect_file, JsonLoad incorrect_file])
                    (incorrect_logs env fs))"

definition incorrect_calls :: "env \<Rightarrow> event list \<Rightarrow> (string \<rightharpoonup> string) \<Rightarrow> event list" where
  "incorrect_calls env t fs =
     (case fs incorrect_file of
        None \<Rightarrow> [PathExists incorrect_file]
      | Some content \<Rightarrow>
          [PathExists incorrect_file, JsonLoad incorrect_file]
          @ taken env (t @ [PathExists incorrect_file, JsonLoad incorrect_file])
              (incorrect_logs env fs)
          @ (if fires env t fs then trigger_calls env else []))"

definition incorrect_outcome :: "env \<Rightarrow> event list \<Rightarrow> (string \<rightharpoonup> string) \<Rightarrow> exn + unit" where
  "incorrect_outcome env t fs =
     (case fs incorrect_file of
        None \<Rightarrow> Inr ()
      | Some content \<Rightarrow>
          (case json_loads env content of
             Inl err \<Rightarrow> (case err of DecodeError msg \<Rightarrow> Inr () | _ \<Rightarrow> Inl (load_exn err))
           | Inr v \<Rightarrow>
               (case py_len v of
                  Inl e \<Rightarrow> Inl e
                | Inr n \<Rightarrow>
                    if \<not> all_taken env (t @ [PathExists incorrect_file, JsonLoad incorrect_file])
                           (incorrect_logs env fs)
                    then Inl MlflowException
                    else if 5 < n then trigger_outcome env else Inr ())))"

definition incorrect_files ::
  "env \<Rightarrow> event list \<Rightarrow> (string \<rightharpoonup> string) \<Rightarrow> (string \<rightharpoonup> string)" where
  "incorrect_files env t fs =
     (if fires env t fs then appended fs trigger_file (retraining_message env) else fs)"

text \<open>The whole run: the calls before each step, and whether the step is reached.\<close>

definition results_taken :: "env \<Rightarrow> event list" where
  "results_taken env = taken env (preamble env) (results_calls (evaluation_result env))"

definition results_ok :: "env \<Rightarrow> bool" where
  "results_ok env = all_taken env (preamble env) (results_calls (evaluation_result env))"

definition before_scores :: "env \<Rightarrow> event list" where
  "before_scores env = preamble env @ results_taken env"

definition scores_ok :: "env \<Rightarrow> (string \<rightharpoonup> string) \<Rightarrow> bool" where
  "scores_ok env fs = (results_ok env \<and> scores_outcome env (before_scores env) fs = Inr ())"

definition before_incorrect :: "env \<Rightarrow> (string \<rightharpoonup> string) \<Rightarrow> event list" where
  "before_incorrect env fs = before_scores env @ scores_calls env (before_scores env) fs"

definition retrains :: "env \<Rightarrow> (string \<rightharpoonup> string) \<Rightarrow> bool" where
  "retrains env fs = (scores_ok env fs \<and> fires env (before_incorrect env fs) fs)"

definition steps_outcome :: "env \<Rightarrow> (string \<rightharpoonup> string) \<Rightarrow> exn + unit" where
  "steps_outcome env fs =
     (if \<not> results_ok env then Inl MlflowException
      else (case scores_outcome env (before_scores env) fs of
              Inl e \<Rightarrow> Inl e
            | Inr u \<Rightarrow> incorrect_outcome env (before_incorrect env fs) fs))"

definition steps_calls :: "env \<Rightarrow> (string \<rightharpoonup> string) \<Rightarrow> event list" where
  "steps_calls env fs =
     (if \<not> results_ok env then []
      else scores_calls env (before_scores env) fs
           @ (if scores_ok env fs then incorrect_calls env (before_incorrect env fs) fs else []))"

definition steps_files :: "env \<Rightarrow> (string \<rightharpoonup> string) \<Rightarrow> (string \<rightharpoonup> string)" where
  "steps_files env fs =
     (if scores_ok env fs then incorrect_files env (before_incorrect env fs) fs else fs)"

definition end_status :: "exn + unit \<Rightarrow> run_status" where
  "end_status r = (case r of Inl e \<Rightarrow> FAILED | Inr u \<Rightarrow> FINISHED)"

section \<open>The procedure makes the calls of each step\<close>

lemma for_each_backend:
  "for_each xs (\<lambda>x. backend_call env (f x)) w =
     (if all_taken env (trace w) (map f xs) then Inr () else Inl MlflowException,
      w\<lparr>trace := trace w @ taken env (trace w) (map f xs)\<rparr>)"
proof (induction xs arbitrary: w)
  case Nil
  then show ?case by (simp add: for_each_def return_io_def all_taken_def)
next
  case (Cons x xs)
  show ?case
  proof (cases "refused env (trace w) (f x)")
    case True
    then show ?thesis
      by (simp add: for_each_def bind_io_def backend_call_def raise_def all_taken_def)
  next
    case False
    then have "for_each (x # xs) (\<lambda>x. backend_call env (f x)) w
        = for_each xs (\<lambda>x. backend_call env (f x)) (w\<lparr>trace := trace w @ [f x]\<rparr>)"
      by (simp add: for_each_def bind_io_def backend_call_def emit_def)
    then show ?thesis using Cons.IH False by (simp add: all_taken_def)
  qed
qed

lemma result_body:
  "(\<lambda>(metric_name, metric_value).
       if isinstance_int_float metric_value
       then mlflow_log_metric env metric_name metric_value
       else mlflow_log_param env metric_name (Str metric_value))
   = (\<lambda>x. backend_call env (result_call x))"
  by (rule ext)
    (simp add: result_call_def mlflow_log_metric_def mlflow_log_param_def split: prod.splits)

lemma log_evaluation_results_eq:
  "log_evaluation_results env r w =
     (if all_taken env (trace w) (results_calls r) then Inr () else Inl MlflowException,
      w\<lparr>trace := trace w @ taken env (trace w) (results_calls r)\<rparr>)"
  by (cases r)
    (simp_all add: log_evaluation_results_def results_calls_def bind_io_def lift_io_def
      result_body for_each_backend return_io_def all_taken_def)

lemma score_body:
  "(\<lambda>(metric, v). mlflow_log_metric env metric v) = (\<lambda>x. backend_call env (score_call x))"
  by (rule ext) (simp add: score_call_def mlflow_log_metric_def split: prod.splits)

lemma log_scores_eq:
  "log_scores env w =
     (scores_outcome env (trace w) (files w),
      w\<lparr>trace := trace w @ scores_calls env (trace w) (files w)\<rparr>)"
proof (cases "files w scores_file")
  case None
  then show ?thesis
    by (simp add: log_scores_def scores_outcome_def scores_calls_def path_exists_def
        bind_io_def emit_def return_io_def)
next
  case (Some content)
  show ?thesis
  proof (cases "json_loads env content")
    case (Inl err)
    with Some show ?thesis
      by (cases err)
        (simp_all add: log_scores_def scores_outcome_def scores_calls_def scores_logs_def
          path_exists_def json_load_def try_except_def bind_io_def emit_def return_io_def)
  next
    case (Inr v)
    with Some show ?thesis
      by (cases v)
        (simp_all add: log_scores_def scores_outcome_def scores_calls_def scores_logs_def
          path_exists_def json_load_def try_except_def bind_io_def emit_def return_io_def
          lift_io_def score_body for_each_backend all_taken_def)
  qed
qed

lemma trigger_retraining_eq:
  "trigger_retraining env w =
     (trigger_outcome env,
      w\<lparr>trace := trace w @ trigger_calls env,
        files := appended (files w) trigger_file (retraining_message env)\<rparr>)"
  by (simp add: trigger_retraining_def trigger_outcome_def trigger_calls_def
      appended_def try_except_def append_write_def subprocess_run_def decode_def bind_io_def
      emit_def return_io_def raise_def)

lemma prediction_body:
  "(\<lambda>(idx, pred). mlflow_log_param env (incorrect_prediction_key idx) (Raw pred))
   = (\<lambda>x. backend_call env (prediction_call x))"
  by (rule ext) (simp add: prediction_call_def mlflow_log_param_def split: prod.splits)

lemma log_incorrect_predictions_eq:
  "log_incorrect_predictions env w =
     (incorrect_outcome env (trace w) (files w),
      w\<lparr>trace := trace w @ incorrect_calls env (trace w) (files w),
        files := incorrect_files env (trace w) (files w)\<rparr>)"
proof (cases "files w incorrect_file")
  case None
  then show ?thesis
    by (simp add: log_incorrect_predictions_def incorrect_outcome_def incorrect_calls_def
        incorrect_files_def incorrect_read_def fires_def path_exists_def bind_io_def emit_def
        return_io_def)
next
  case (Some content)
  show ?thesis
  proof (cases "json_loads env content")
    case (Inl err)
    with Some show ?thesis
      by (cases err)
        (simp_all add: log_incorrect_predictions_def incorrect_outcome_def incorrect_calls_def
          incorrect_files_def incorrect_read_def incorrect_logs_def fires_def path_exists_def
          json_load_def try_except_def bind_io_def emit_def return_io_def)
  next
    case (Inr v)
    with Some show ?thesis
      by (cases v)
        (simp_all add: log_incorrect_predictions_def incorrect_outcome_def incorrect_calls_def
          incorrect_files_def incorrect_read_def incorrect_logs_def fires_def path_exists_def
          json_load_def try_except_def bind_io_def emit_def return_io_def lift_io_def
          mlflow_log_metric_def backend_call_def raise_def
          prediction_body for_each_backend trigger_retraining_eq trigger_outcome_def
          all_taken_def)
  qed
qed

lemma run_eq:
  "run env fs =
     (steps_outcome env fs,
      \<lparr>trace = preamble env @ results_taken env @ steps_calls env fs
                @ [EndRun (end_status (steps_outcome env fs))],
       files = steps_files env fs\<rparr>)"
proof (cases "results_ok env")
  case False
  then show ?thesis
    by (simp add: run_def main_def with_start_run_def bind_io_def emit_def return_io_def
        raise_def mlflow_log_param_def backend_call_def evaluation_def preamble_def
          log_evaluation_results_eq results_ok_def results_taken_def
        steps_outcome_def steps_calls_def steps_files_def scores_ok_def end_status_def)
next
  case True
  show ?thesis
  proof (cases "scores_outcome env (before_scores env) fs")
    case (Inl e)
    with True show ?thesis
      by (simp add: run_def main_def with_start_run_def bind_io_def emit_def return_io_def
          raise_def mlflow_log_param_def backend_call_def evaluation_def preamble_def
          log_evaluation_results_eq log_scores_eq
          results_ok_def results_taken_def before_scores_def
          steps_outcome_def steps_calls_def steps_files_def scores_ok_def end_status_def)
  next
    case (Inr u)
    with True show ?thesis
      by (cases "incorrect_outcome env (before_incorrect env fs) fs")
        (simp_all add: run_def main_def with_start_run_def bind_io_def emit_def return_io_def
          raise_def mlflow_log_param_def backend_call_def evaluation_def preamble_def
          log_evaluation_results_eq log_scores_eq
          log_incorrect_predictions_eq
          results_ok_def results_taken_def before_scores_def before_incorrect_def
          steps_outcome_def steps_calls_def steps_files_def scores_ok_def end_status_def)
  qed
qed

lemma outcome_eq: "outcome env fs = steps_outcome env fs"
  by (simp add: outcome_def run_eq)

lemma calls_eq:
  "calls env fs =
     preamble env @ results_taken env @ steps_calls env fs
     @ [EndRun (end_status (steps_outcome env fs))]"
  by (simp add: calls_def run_eq)

lemma files_after_eq: "files_after env fs = steps_files env fs"
  by (simp add: files_after_def run_eq)

lemma decimal_small: "n < 10 \<Longrightarrow> decimal n = [digit_char n]"
  by (subst decimal.simps) simp

lemma decimal_16: "decimal 16 = ''16''"
  by (simp add: decimal.simps digit_char_def)

lemmas model_defs =
  run_def main_def calls_def outcome_def files_after_def
  log_evaluation_results_def log_scores_def log_incorrect_predictions_def
  trigger_retraining_def with_start_run_def evaluation_def
  path_exists_def json_load_def append_write_def subprocess_run_def decode_def
  mlflow_log_param_def mlflow_log_metric_def backend_call_def py_str_def
  try_except_def for_each_def bind_io_def lift_io_def emit_def return_io_def raise_def
  scores_file_def incorrect_file_def trigger_file_def STAGE_NAME_def dvc_command_def
  example_env_def example_json_loads_def example_repr_def example_takes_metric_def
  utf8_valid_def continuation_def six_entries_def
  incorrect_prediction_key_def decimal_small decimal_16 digit_char_def

subsection \<open>What the backend takes\<close>

lemma taken_take: "taken env t es = take (length (taken env t es)) es"
  by (induction es arbitrary: t) auto

lemma set_taken: "e \<in> set (taken env t es) \<Longrightarrow> e \<in> set es"
  using taken_take [of env t es] by (metis in_set_takeD)

lemma length_taken: "length (taken env t es) \<le> length es"
  by (induction es arbitrary: t) auto

lemma all_taken_iff: "all_taken env t es \<longleftrightarrow> length (taken env t es) = length es"
  using taken_take [of env t es] by (auto simp: all_taken_def)

lemma first_refused:
  "\<not> all_taken env t es \<Longrightarrow>
     length (taken env t es) < length es
     \<and> refused env (t @ taken env t es) (es ! length (taken env t es))"
proof (induction es arbitrary: t)
  case Nil
  then show ?case by (simp add: all_taken_def)
next
  case (Cons e es)
  show ?case
  proof (cases "refused env t e")
    case True
    then show ?thesis by simp
  next
    case False
    with Cons.prems have "\<not> all_taken env (t @ [e]) es"
      by (simp add: all_taken_def)
    from Cons.IH [OF this] False show ?thesis by simp
  qed
qed

lemma filter_none: "(\<And>e. e \<in> set xs \<Longrightarrow> \<not> P e) \<Longrightarrow> filter P xs = []"
  by (simp add: filter_empty_conv)

lemma filter_taken: "(\<And>e. e \<in> set es \<Longrightarrow> \<not> P e) \<Longrightarrow> filter P (taken env t es) = []"
  using set_taken by (intro filter_none) blast

subsection \<open>The kinds of calls in each step\<close>

lemma py_len_iter: "py_len v = Inr n \<Longrightarrow> \<exists>preds. py_iter v = Inr preds \<and> length preds = n"
  by (cases v) auto

lemma py_len_error: "py_len v = Inl e \<Longrightarrow> e = TypeError"
  by (cases v) auto

lemma incorrect_read_eq:
  assumes "fs incorrect_file = Some content" "json_loads env content = Inr v"
    "py_len v = Inr n" "py_iter v = Inr preds"
  shows "incorrect_read env fs = Some (n, preds)"
  using assms by (simp add: incorrect_read_def)

lemma results_calls_log: "e \<in> set (results_calls r) \<Longrightarrow> is_log_call e"
  by (cases r) (auto simp: results_calls_def result_call_def)

lemma results_taken_log: "e \<in> set (results_taken env) \<Longrightarrow> is_log_call e"
  unfolding results_taken_def using set_taken results_calls_log by blast

lemma scores_logs_log: "e \<in> set (scores_logs env fs) \<Longrightarrow> is_log_call e"
  by (auto simp: scores_logs_def score_call_def split: option.splits sum.splits pyval.splits)

lemma incorrect_logs_log: "e \<in> set (incorrect_logs env fs) \<Longrightarrow> is_log_call e"
  by (auto simp: incorrect_logs_def prediction_call_def split: option.splits)

lemma results_ok_taken: "results_ok env \<Longrightarrow> results_taken env = results_calls (evaluation_result env)"
  by (simp add: results_ok_def results_taken_def all_taken_def)

lemma filter_calls:
  assumes l: "\<And>e. is_log_call e \<Longrightarrow> \<not> P e"
    and x: "\<And>p. \<not> P (PathExists p)"
    and j: "\<And>p. \<not> P (JsonLoad p)"
    and r: "\<And>st. \<not> P (EndRun st)"
  shows "filter P (calls env fs) =
           filter P (preamble env) @ (if retrains env fs then filter P (trigger_calls env) else [])"
proof -
  have a: "filter P (results_taken env) = []"
    using results_taken_log l by (intro filter_none) blast
  have b: "filter P (taken env t (scores_logs env fs)) = []" for t
    using scores_logs_log l by (intro filter_taken) blast
  have c: "filter P (taken env t (incorrect_logs env fs)) = []" for t
    using incorrect_logs_log l by (intro filter_taken) blast
  have s: "filter P (scores_calls env t fs) = []" for t
    by (simp add: scores_calls_def b x j split: option.splits)
  have i: "filter P (incorrect_calls env t fs) =
             (if fires env t fs then filter P (trigger_calls env) else [])" for t
    by (simp add: incorrect_calls_def c x j fires_def incorrect_read_def split: option.splits)
  show ?thesis
    by (simp add: calls_eq steps_calls_def a s i r retrains_def scores_ok_def)
qed

lemma log_call_not_append: "is_log_call e \<Longrightarrow> \<not> is_trigger_append e"
  by (cases e) auto

lemma log_call_not_subprocess: "is_log_call e \<Longrightarrow> \<not> is_subprocess_run e"
  by (cases e) auto

lemma log_call_not_evaluation: "is_log_call e \<Longrightarrow> e \<noteq> RunEvaluation"
  by (cases e) auto

lemma filter_append_calls:
  "filter is_trigger_append (calls env fs) =
     (if retrains env fs then [AppendWrite trigger_file (retraining_message env)] else [])"
  using filter_calls [of is_trigger_append env fs] log_call_not_append
  by (simp add: preamble_def trigger_calls_def)

lemma filter_subprocess_calls:
  "filter is_subprocess_run (calls env fs) =
     (if retrains env fs then [SubprocessRun dvc_command] else [])"
  using filter_calls [of is_subprocess_run env fs] log_call_not_subprocess
  by (simp add: preamble_def trigger_calls_def)

lemma filter_evaluation_calls:
  "filter (\<lambda>e. e = RunEvaluation) (calls env fs) = [RunEvaluation]"
  using filter_calls [of "\<lambda>e. e = RunEvaluation" env fs] log_call_not_evaluation
  by (simp add: preamble_def trigger_calls_def)

lemma marker_appended_iff: "marker_appended (calls env fs) \<longleftrightarrow> retrains env fs"
proof -
  have "marker_appended (calls env fs) \<longleftrightarrow> filter is_trigger_append (calls env fs) \<noteq> []"
    by (simp add: marker_appended_def list_ex_iff filter_empty_conv)
  then show ?thesis by (simp add: filter_append_calls)
qed

lemma process_invoked_iff: "process_invoked (calls env fs) \<longleftrightarrow> retrains env fs"
proof -
  have "process_invoked (calls env fs) \<longleftrightarrow> filter is_subprocess_run (calls env fs) \<noteq> []"
    by (simp add: process_invoked_def list_ex_iff filter_empty_conv)
  then show ?thesis by (simp add: filter_subprocess_calls)
qed

lemma retrains_threshold:
  assumes "retrains env fs"
  shows "\<exists>content v n. fs incorrect_file = Some content \<and> json_loads env content = Inr v
           \<and> py_len v = Inr n \<and> 5 < n"
  using assms
  by (auto simp: retrains_def fires_def incorrect_read_def split: option.splits sum.splits)

lemma steps_files_eq:
  "steps_files env fs =
     (if retrains env fs then appended fs trigger_file (retraining_message env) else fs)"
  by (simp add: steps_files_def incorrect_files_def retrains_def)

subsection \<open>The timestamp has no newline\<close>

lemma digit_char_digit: "digit_char d \<in> set ''0123456789''"
proof -
  have "d mod 10 < length ''0123456789''" by simp
  then show ?thesis unfolding digit_char_def by (rule nth_mem)
qed

lemma decimal_digits: "set (decimal n) \<subseteq> set ''0123456789''"
proof (induction n rule: decimal.induct)
  case (1 n)
  show ?case
  proof (cases "n < 10")
    case True
    then show ?thesis using digit_char_digit [of n] by (subst decimal.simps) simp
  next
    case False
    then show ?thesis
      using 1 digit_char_digit [of n] by (subst decimal.simps) simp
  qed
qed

lemma zero_padded_digits: "set (zero_padded w n) \<subseteq> set ''0123456789''"
  using decimal_digits [of n] by (auto simp: zero_padded_def)

lemma zero_padded_no_newline: "CHR 0x0A \<notin> set (zero_padded w n)"
  using zero_padded_digits [of w n] by auto

lemma isoformat_no_newline: "CHR 0x0A \<notin> set (isoformat d)"
  by (simp add: isoformat_def zero_padded_no_newline)

subsection \<open>Which steps a run reaches\<close>

lemma results_calls_skipped:
  "\<not> (truthy r \<and> isinstance_dict r) \<Longrightarrow> results_calls r = []"
  by (cases r) (auto simp: results_calls_def)

lemma scores_calls_head:
  "\<exists>rest. scores_calls env t fs = PathExists scores_file # rest"
  by (simp add: scores_calls_def split: option.splits)

lemma incorrect_calls_head:
  "\<exists>rest. incorrect_calls env t fs = PathExists incorrect_file # rest"
  by (simp add: incorrect_calls_def split: option.splits)

lemma files_differ: "scores_file \<noteq> incorrect_file"
  by (simp add: scores_file_def incorrect_file_def)

lemma scores_calls_kind:
  assumes "e \<in> set (scores_calls env t fs)"
  shows "e = PathExists scores_file \<or> (e = JsonLoad scores_file \<and> fs scores_file \<noteq> None)
     \<or> is_log_call e"
proof (cases "fs scores_file")
  case None
  with assms show ?thesis by (simp add: scores_calls_def)
next
  case (Some content)
  with assms have "e = PathExists scores_file \<or> e = JsonLoad scores_file
      \<or> e \<in> set (taken env (t @ [PathExists scores_file, JsonLoad scores_file])
                   (scores_logs env fs))"
    by (simp add: scores_calls_def)
  then show ?thesis
    using Some set_taken scores_logs_log by blast
qed

lemma incorrect_calls_kind:
  assumes "e \<in> set (incorrect_calls env t fs)"
  shows "e = PathExists incorrect_file \<or> (e = JsonLoad incorrect_file \<and> fs incorrect_file \<noteq> None)
     \<or> is_log_call e \<or> e \<in> set (trigger_calls env)"
proof (cases "fs incorrect_file")
  case None
  with assms show ?thesis by (simp add: incorrect_calls_def)
next
  case (Some content)
  with assms have "e = PathExists incorrect_file \<or> e = JsonLoad incorrect_file
      \<or> e \<in> set (taken env (t @ [PathExists incorrect_file, JsonLoad incorrect_file])
                   (incorrect_logs env fs))
      \<or> e \<in> set (trigger_calls env)"
    by (auto simp: incorrect_calls_def split: if_splits)
  then show ?thesis
    using Some set_taken incorrect_logs_log by blast
qed

lemma reaches_scores: "PathExists scores_file \<in> set (calls env fs) \<longleftrightarrow> results_ok env"
proof -
  have a: "PathExists scores_file \<notin> set (preamble env)"
    by (simp add: preamble_def)
  have b: "PathExists scores_file \<notin> set (results_taken env)"
    using results_taken_log by fastforce
  have c: "PathExists scores_file \<in> set (scores_calls env t fs)" for t
    using scores_calls_head [of env t fs] by auto
  show ?thesis
    using a b c by (auto simp: calls_eq steps_calls_def)
qed

lemma reaches_incorrect: "PathExists incorrect_file \<in> set (calls env fs) \<longleftrightarrow> scores_ok env fs"
proof -
  have a: "PathExists incorrect_file \<notin> set (preamble env)"
    by (simp add: preamble_def)
  have b: "PathExists incorrect_file \<notin> set (results_taken env)"
    using results_taken_log by fastforce
  have c: "PathExists incorrect_file \<notin> set (scores_calls env t fs)" for t
    using scores_calls_kind [of "PathExists incorrect_file" env t fs] files_differ by auto
  have d: "PathExists incorrect_file \<in> set (incorrect_calls env t fs)" for t
    using incorrect_calls_head [of env t fs] by auto
  show ?thesis
    using a b c d by (auto simp: calls_eq steps_calls_def scores_ok_def)
qed

lemma reads_scores:
  "JsonLoad scores_file \<in> set (calls env fs) \<longleftrightarrow> results_ok env \<and> fs scores_file \<noteq> None"
proof -
  have a: "JsonLoad scores_file \<notin> set (preamble env)"
    by (simp add: preamble_def)
  have b: "JsonLoad scores_file \<notin> set (results_taken env)"
    using results_taken_log by fastforce
  have c: "JsonLoad scores_file \<in> set (scores_calls env t fs) \<longleftrightarrow> fs scores_file \<noteq> None" for t
    using scores_calls_kind [of "JsonLoad scores_file" env t fs]
    by (auto simp: scores_calls_def split: option.splits)
  have d: "JsonLoad scores_file \<notin> set (incorrect_calls env t fs)" for t
    using incorrect_calls_kind [of "JsonLoad scores_file" env t fs] files_differ
    by (auto simp: trigger_calls_def)
  show ?thesis
    using a b c d by (auto simp: calls_eq steps_calls_def)
qed

lemma reads_incorrect:
  "JsonLoad incorrect_file \<in> set (calls env fs) \<longleftrightarrow> scores_ok env fs \<and> fs incorrect_file \<noteq> None"
proof -
  have a: "JsonLoad incorrect_file \<notin> set (preamble env)"
    by (simp add: preamble_def)
  have b: "JsonLoad incorrect_file \<notin> set (results_taken env)"
    using results_taken_log by fastforce
  have c: "JsonLoad incorrect_file \<notin> set (scores_calls env t fs)" for t
    using scores_calls_kind [of "JsonLoad incorrect_file" env t fs] files_differ by auto
  have d: "JsonLoad incorrect_file \<in> set (incorrect_calls env t fs) \<longleftrightarrow> fs incorrect_file \<noteq> None"
    for t
    using incorrect_calls_kind [of "JsonLoad incorrect_file" env t fs]
    by (auto simp: incorrect_calls_def trigger_calls_def split: option.splits)
  show ?thesis
    using a b c d by (auto simp: calls_eq steps_calls_def scores_ok_def)
qed

lemma scores_ok_outcome:
  "scores_ok env fs \<Longrightarrow> steps_outcome env fs = incorrect_outcome env (before_incorrect env fs) fs"
  by (simp add: scores_ok_def steps_outcome_def)

lemma scores_ok_calls:
  "scores_ok env fs \<Longrightarrow>
     calls env fs =
       (preamble env @ results_taken env @ scores_calls env (before_scores env) fs)
       @ incorrect_calls env (before_incorrect env fs) fs
       @ [EndRun (end_status (incorrect_outcome env (before_incorrect env fs) fs))]"
  by (simp add: calls_eq steps_calls_def scores_ok_outcome) (simp add: scores_ok_def)

lemma trigger_outcome_not_refusal: "trigger_outcome env \<noteq> Inl MlflowException"
  by (simp add: trigger_outcome_def)

lemma incorrect_outcome_refusal:
  assumes "fs incorrect_file = Some content" "json_loads env content = Inr v" "py_len v = Inr n"
  shows "incorrect_outcome env t fs = Inl MlflowException \<longleftrightarrow>
           \<not> all_taken env (t @ [PathExists incorrect_file, JsonLoad incorrect_file])
               (incorrect_logs env fs)"
  using assms trigger_outcome_not_refusal [of env] by (simp add: incorrect_outcome_def)

lemma fires_iff:
  assumes "fs incorrect_file = Some content" "json_loads env content = Inr v" "py_len v = Inr n"
  shows "fires env t fs \<longleftrightarrow> 5 < n \<and> incorrect_outcome env t fs \<noteq> Inl MlflowException"
proof -
  obtain preds where "py_iter v = Inr preds"
    using py_len_iter [of v n] assms(3) by blast
  then have "incorrect_read env fs = Some (n, preds)"
    using assms by (simp add: incorrect_read_def)
  then show ?thesis
    using incorrect_outcome_refusal [of fs content env v n t] assms by (simp add: fires_def)
qed

lemma retrains_iff:
  assumes "fs incorrect_file = Some content" "json_loads env content = Inr v" "py_len v = Inr n"
  shows "retrains env fs \<longleftrightarrow>
           5 < n \<and> PathExists incorrect_file \<in> set (calls env fs)
           \<and> outcome env fs \<noteq> Inl MlflowException"
  using fires_iff [of fs content env v n "before_incorrect env fs"] assms scores_ok_outcome [of env fs]
  by (auto simp: retrains_def reaches_incorrect outcome_eq)

subsection \<open>The calls of the incorrect-predictions step\<close>

lemma enumerate_nth: "enumerate 0 xs = map (\<lambda>i. (i, xs ! i)) [0..<length xs]"
  by (rule nth_equalityI) (simp_all add: nth_enumerate_eq)

lemma prediction_calls_eq:
  "map prediction_call (enumerate 0 preds) =
     map (\<lambda>i. LogParam (''incorrect_prediction_'' @ decimal i) (Raw (preds ! i)))
       [0..<length preds]"
  by (simp add: enumerate_nth prediction_call_def incorrect_prediction_key_def comp_def)

lemma incorrect_logs_eq:
  "incorrect_read env fs = Some (n, preds) \<Longrightarrow>
     incorrect_logs env fs =
       LogMetric ''num_incorrect_predictions'' (PInt (int n))
       # map (\<lambda>i. LogParam (''incorrect_prediction_'' @ decimal i) (Raw (preds ! i)))
           [0..<length preds]"
  by (simp add: incorrect_logs_def prediction_calls_eq)

lemma incorrect_calls_all_taken:
  assumes "fs incorrect_file = Some content"
    and "all_taken env (t @ [PathExists incorrect_file, JsonLoad incorrect_file])
           (incorrect_logs env fs)"
  shows "incorrect_calls env t fs =
           [PathExists incorrect_file, JsonLoad incorrect_file] @ incorrect_logs env fs
           @ (if fires env t fs then trigger_calls env else [])"
  using assms by (simp add: incorrect_calls_def all_taken_def)

subsection \<open>Missing and undecodable files\<close>

lemma scores_absent:
  assumes "fs scores_file = None"
  shows "scores_calls env t fs = [PathExists scores_file]"
    and "scores_outcome env t fs = Inr ()"
  using assms by (simp_all add: scores_calls_def scores_outcome_def)

lemma scores_undecodable:
  assumes "fs scores_file = Some content" "json_loads env content = Inl (DecodeError msg)"
  shows "scores_calls env t fs = [PathExists scores_file, JsonLoad scores_file]"
    and "scores_outcome env t fs = Inr ()"
  using assms by (simp_all add: scores_calls_def scores_outcome_def scores_logs_def)

lemma incorrect_absent:
  assumes "fs incorrect_file = None"
  shows "incorrect_calls env t fs = [PathExists incorrect_file]"
    and "incorrect_outcome env t fs = Inr ()"
    and "\<not> fires env t fs"
  using assms
  by (simp_all add: incorrect_calls_def incorrect_outcome_def fires_def incorrect_read_def)

lemma incorrect_undecodable:
  assumes "fs incorrect_file = Some content" "json_loads env content = Inl (DecodeError msg)"
  shows "incorrect_calls env t fs = [PathExists incorrect_file, JsonLoad incorrect_file]"
    and "incorrect_outcome env t fs = Inr ()"
    and "\<not> fires env t fs"
  using assms
  by (simp_all add: incorrect_calls_def incorrect_outcome_def fires_def incorrect_read_def
      incorrect_logs_def)

lemma scores_outcome_not_decode_error: "scores_outcome env t fs \<noteq> Inl (JSONDecodeError msg)"
  by (auto simp: scores_outcome_def split: option.splits sum.splits load_error.splits)

lemma incorrect_outcome_not_decode_error:
  "incorrect_outcome env t fs \<noteq> Inl (JSONDecodeError msg)"
  by (auto simp: incorrect_outcome_def trigger_outcome_def
      split: option.splits sum.splits load_error.splits dest: py_len_error)

lemma steps_outcome_not_decode_error: "steps_outcome env fs \<noteq> Inl (JSONDecodeError msg)"
  using scores_outcome_not_decode_error [of env "before_scores env" fs msg]
    incorrect_outcome_not_decode_error [of env "before_incorrect env fs" fs msg]
  by (auto simp: steps_outcome_def split: sum.splits)

subsection \<open>A run that retrains\<close>



subsection \<open>The shape of the steps\<close>

lemma taken_all_log:
  "(\<And>e. e \<in> set es \<Longrightarrow> is_log_call e) \<Longrightarrow> list_all is_log_call (taken env t es)"
  using set_taken by (fastforce simp: list_all_iff)

lemma scores_calls_shape:
  "\<exists>R. scores_calls env t fs = PathExists scores_file # R
       \<and> (R = [] \<or> (\<exists>L. R = JsonLoad scores_file # L \<and> list_all is_log_call L))"
proof (cases "fs scores_file")
  case None
  then show ?thesis by (simp add: scores_calls_def)
next
  case (Some content)
  have "list_all is_log_call
          (taken env (t @ [PathExists scores_file, JsonLoad scores_file]) (scores_logs env fs))"
    using scores_logs_log by (rule taken_all_log)
  with Some show ?thesis by (simp add: scores_calls_def)
qed

lemma incorrect_calls_shape:
  "\<exists>R. incorrect_calls env t fs =
          PathExists incorrect_file # R @ (if fires env t fs then trigger_calls env else [])
       \<and> (R = [] \<or> (\<exists>L. R = JsonLoad incorrect_file # L \<and> list_all is_log_call L))"
proof (cases "fs incorrect_file")
  case None
  then show ?thesis
    by (simp add: incorrect_calls_def fires_def incorrect_read_def)
next
  case (Some content)
  have "list_all is_log_call
          (taken env (t @ [PathExists incorrect_file, JsonLoad incorrect_file])
             (incorrect_logs env fs))"
    using incorrect_logs_log by (rule taken_all_log)
  with Some show ?thesis by (simp add: incorrect_calls_def)
qed

lemma fires_threshold:
  assumes "fires env t fs"
  shows "\<exists>content v n. fs incorrect_file = Some content \<and> json_loads env content = Inr v
           \<and> py_len v = Inr n \<and> 5 < n"
  using assms by (auto simp: fires_def incorrect_read_def split: option.splits sum.splits)

lemma end_status_finished: "end_status r = FINISHED \<longleftrightarrow> r = Inr ()"
  by (cases r) (simp_all add: end_status_def)

section \<open>The claims\<close>

text \<open>
  Claim C3. Whenever the retraining trigger fires, retrain\_trigger.txt is appended to and
  not overwritten: its new content is its old content (nothing, when the file was missing)
  followed by one line, \<open>Retraining triggered at\<close> and the timestamp, ended by the only
  newline written. The line is written once, and no other file changes.
\<close>

theorem marker_file_is_appended_to:
  assumes "marker_appended (calls env fs)"
  shows "files_after env fs trigger_file =
           Some ((case fs trigger_file of None \<Rightarrow> [] | Some old \<Rightarrow> old)
                 @ ''Retraining triggered at '' @ isoformat (now env) @ [CHR 0x0A])
       \<and> CHR 0x0A \<notin> set (''Retraining triggered at '' @ isoformat (now env))
       \<and> length (filter is_trigger_append (calls env fs)) = 1
       \<and> (\<forall>p. p \<noteq> trigger_file \<longrightarrow> files_after env fs p = fs p)"
proof -
  from assms have r: "retrains env fs" by (simp add: marker_appended_iff)
  then show ?thesis
    by (simp add: files_after_eq steps_files_eq appended_def retraining_message_def
        filter_append_calls isoformat_no_newline split: option.splits)
qed

theorem marker_file_is_appended_to_witness:
  "marker_appended
     (calls (example_env PNone 1)
        [incorrect_file \<mapsto> ''[1, 2, 3, 4, 5, 6]'', trigger_file \<mapsto> ''earlier line'' @ [CHR 0x0A]])
   \<and> files_after (example_env PNone 1)
        [incorrect_file \<mapsto> ''[1, 2, 3, 4, 5, 6]'', trigger_file \<mapsto> ''earlier line'' @ [CHR 0x0A]]
        trigger_file
     = Some (''earlier line'' @ [CHR 0x0A]
             @ ''Retraining triggered at 2024-03-09T07:05:00.000012'' @ [CHR 0x0A])"
proof -
  have m: "marker_appended
     (calls (example_env PNone 1)
        [incorrect_file \<mapsto> ''[1, 2, 3, 4, 5, 6]'', trigger_file \<mapsto> ''earlier line'' @ [CHR 0x0A]])"
    by (simp add: model_defs marker_appended_def)
  have i: "isoformat (now (example_env PNone 1)) = ''2024-03-09T07:05:00.000012''"
    by code_simp
  show ?thesis
    using m marker_file_is_appended_to [OF m] i by (simp add: trigger_file_def)
qed

text \<open>
  Claim C7. In every run the evaluation function is called exactly once and a child process
  is started at most once. When one is started it is \<open>dvc repro training\<close>, and
  incorrect\_predictions.json exists and holds a collection of more than five entries.
\<close>

theorem evaluation_once_dvc_at_most_once:
  "length (filter (\<lambda>e. e = RunEvaluation) (calls env fs)) = 1
   \<and> length (filter is_subprocess_run (calls env fs)) \<le> 1
   \<and> (process_invoked (calls env fs) \<longrightarrow>
        filter is_subprocess_run (calls env fs) = [SubprocessRun dvc_command]
        \<and> (\<exists>content v n. fs incorrect_file = Some content \<and> json_loads env content = Inr v
              \<and> py_len v = Inr n \<and> 5 < n))"
  using retrains_threshold [of env fs]
  by (simp add: filter_evaluation_calls filter_subprocess_calls process_invoked_iff)

theorem evaluation_once_dvc_at_most_once_witness:
  "process_invoked (calls (example_env PNone 0) [incorrect_file \<mapsto> ''[1, 2, 3, 4, 5, 6]''])
   \<and> filter is_subprocess_run
        (calls (example_env PNone 0) [incorrect_file \<mapsto> ''[1, 2, 3, 4, 5, 6]''])
       = [SubprocessRun [''dvc'', ''repro'', ''training'']]
   \<and> length (filter (\<lambda>e. e = RunEvaluation)
        (calls (example_env PNone 0) [incorrect_file \<mapsto> ''[1, 2, 3, 4, 5, 6]''])) = 1"
proof -
  have a: "process_invoked
             (calls (example_env PNone 0) [incorrect_file \<mapsto> ''[1, 2, 3, 4, 5, 6]''])"
    by (simp add: model_defs process_invoked_def)
  show ?thesis
    using a evaluation_once_dvc_at_most_once
              [of "example_env PNone 0" "[incorrect_file \<mapsto> ''[1, 2, 3, 4, 5, 6]'']"]
    by (simp add: dvc_command_def)
qed

text \<open>
  Claim C10. When the evaluation function returns a value that is not a dict, or a value
  that is falsy (the empty dict among them), nothing is logged from it: the call that
  follows the evaluation is the check for scores.json, so the run has gone on to the
  scores step without raising.
\<close>

theorem no_results_nothing_logged:
  assumes "\<not> isinstance_dict (evaluation_result env) \<or> \<not> truthy (evaluation_result env)"
  shows "\<exists>post. calls env fs =
           [GetEvaluationConfig, NewEvaluation, DagshubInit, StartRun STAGE_NAME,
            LogParam ''image_size'' (Raw (params_image_size (get_evaluation_config env))),
            LogParam ''batch_size'' (Raw (params_batch_size (get_evaluation_config env))),
            RunEvaluation, PathExists scores_file] @ post"
proof -
  have r: "results_calls (evaluation_result env) = []"
    using assms by (intro results_calls_skipped) blast
  then have t: "results_taken env = []" and k: "results_ok env"
    by (simp_all add: results_taken_def results_ok_def all_taken_def)
  obtain rest where s: "scores_calls env (before_scores env) fs = PathExists scores_file # rest"
    using scores_calls_head by blast
  show ?thesis
    by (simp add: calls_eq steps_calls_def t k s preamble_def)
qed

theorem no_results_nothing_logged_witness:
  "\<not> isinstance_dict (evaluation_result (example_env (PList [PInt 1]) 0))
   \<and> \<not> truthy (evaluation_result (example_env (PDict []) 0))
   \<and> (\<exists>post. calls (example_env (PList [PInt 1]) 0) Map.empty =
           [GetEvaluationConfig, NewEvaluation, DagshubInit, StartRun ''Evaluation'',
            LogParam ''image_size'' (Raw (PList [PInt 224, PInt 224, PInt 3])),
            LogParam ''batch_size'' (Raw (PInt 16)),
            RunEvaluation, PathExists ''scores.json''] @ post)
   \<and> (\<exists>post. calls (example_env (PDict []) 0) Map.empty =
           [GetEvaluationConfig, NewEvaluation, DagshubInit, StartRun ''Evaluation'',
            LogParam ''image_size'' (Raw (PList [PInt 224, PInt 224, PInt 3])),
            LogParam ''batch_size'' (Raw (PInt 16)),
            RunEvaluation, PathExists ''scores.json''] @ post)"
proof -
  have a: "\<not> isinstance_dict (evaluation_result (example_env (PList [PInt 1]) 0))
           \<or> \<not> truthy (evaluation_result (example_env (PList [PInt 1]) 0))"
    by (simp add: example_env_def)
  have b: "\<not> isinstance_dict (evaluation_result (example_env (PDict []) 0))
           \<or> \<not> truthy (evaluation_result (example_env (PDict []) 0))"
    by (simp add: example_env_def)
  have c: "\<not> isinstance_dict (evaluation_result (example_env (PList [PInt 1]) 0))"
    by (simp add: example_env_def)
  have d: "\<not> truthy (evaluation_result (example_env (PDict []) 0))"
    by (simp add: example_env_def)
  show ?thesis
    using c d no_results_nothing_logged [OF a, of Map.empty]
      no_results_nothing_logged [OF b, of Map.empty]
    by (simp add: example_env_def STAGE_NAME_def scores_file_def)
qed

text \<open>
  Claim C1, as amended. Take a run that reaches the incorrect-predictions step and in
  which the tracking backend refuses no call, with incorrect\_predictions.json existing
  and decoded to a collection of length \<open>n\<close>: the line is appended to
  retrain\_trigger.txt, and the child process is started, exactly when \<open>n\<close> is greater
  than 5. In any run with such a file, neither happens when \<open>n \<le> 5\<close>.
\<close>

theorem retraining_fires_above_threshold:
  assumes "fs incorrect_file = Some content"
    and "json_loads env content = Inr v"
    and "py_len v = Inr n"
  shows "(marker_appended (calls env fs) \<longleftrightarrow>
            5 < n \<and> PathExists incorrect_file \<in> set (calls env fs)
            \<and> outcome env fs \<noteq> Inl MlflowException)
       \<and> (process_invoked (calls env fs) \<longleftrightarrow>
            5 < n \<and> PathExists incorrect_file \<in> set (calls env fs)
            \<and> outcome env fs \<noteq> Inl MlflowException)"
  using assms retrains_iff [of fs content env v n]
  by (simp add: marker_appended_iff process_invoked_iff)

theorem retraining_fires_above_threshold_witness:
  "PathExists incorrect_file \<in> set (calls (example_env PNone 0) [incorrect_file \<mapsto> six_entries])
   \<and> outcome (example_env PNone 0) [incorrect_file \<mapsto> six_entries] = Inr ()
   \<and> marker_appended (calls (example_env PNone 0) [incorrect_file \<mapsto> six_entries])
   \<and> process_invoked (calls (example_env PNone 0) [incorrect_file \<mapsto> six_entries])
   \<and> \<not> marker_appended (calls (example_env PNone 0) [incorrect_file \<mapsto> ''[]''])
   \<and> \<not> process_invoked (calls (example_env PNone 0) [incorrect_file \<mapsto> ''[]''])"
proof -
  have a: "PathExists incorrect_file
             \<in> set (calls (example_env PNone 0) [incorrect_file \<mapsto> six_entries])"
    by (simp add: model_defs)
  have b: "outcome (example_env PNone 0) [incorrect_file \<mapsto> six_entries] = Inr ()"
    by (simp add: model_defs)
  show ?thesis
    using a b
      retraining_fires_above_threshold
        [of "[incorrect_file \<mapsto> six_entries]" six_entries
            "example_env PNone 0" "PList [PInt 1, PInt 2, PInt 3, PInt 4, PInt 5, PInt 6]" 6]
      retraining_fires_above_threshold
        [of "[incorrect_file \<mapsto> ''[]'']" "''[]''" "example_env PNone 0" "PList []" 0]
    by (simp add: example_env_def example_json_loads_def six_entries_def utf8_valid_def)
qed

text \<open>
  The claim as it is written fails in two runs, each with six entries in
  incorrect\_predictions.json and no trigger. In the first, scores.json holds a JSON
  array, \<open>.items()\<close> raises \<open>AttributeError\<close> and the run ends before it looks at
  incorrect\_predictions.json. In the second, the evaluation result has logged the
  parameter \<open>incorrect_prediction_0\<close> with the value \<open>x\<close>; the step reads the file, and
  the backend refuses to log that parameter again with the value \<open>1\<close>.
\<close>

theorem retraining_threshold_counterexample:
  "[scores_file \<mapsto> ''[]'', incorrect_file \<mapsto> six_entries] incorrect_file = Some six_entries
   \<and> json_loads (example_env PNone 0) six_entries
     = Inr (PList [PInt 1, PInt 2, PInt 3, PInt 4, PInt 5, PInt 6])
   \<and> py_len (PList [PInt 1, PInt 2, PInt 3, PInt 4, PInt 5, PInt 6]) = Inr 6
   \<and> \<not> marker_appended
         (calls (example_env PNone 0) [scores_file \<mapsto> ''[]'', incorrect_file \<mapsto> six_entries])
   \<and> \<not> process_invoked
         (calls (example_env PNone 0) [scores_file \<mapsto> ''[]'', incorrect_file \<mapsto> six_entries])
   \<and> outcome (example_env PNone 0) [scores_file \<mapsto> ''[]'', incorrect_file \<mapsto> six_entries]
     = Inl AttributeError
   \<and> PathExists incorrect_file
       \<notin> set (calls (example_env PNone 0)
                 [scores_file \<mapsto> ''[]'', incorrect_file \<mapsto> six_entries])
   \<and> PathExists incorrect_file
       \<in> set (calls (example_env (PDict [(''incorrect_prediction_0'', PStr ''x'')]) 0)
                 [incorrect_file \<mapsto> six_entries])
   \<and> \<not> marker_appended
         (calls (example_env (PDict [(''incorrect_prediction_0'', PStr ''x'')]) 0)
            [incorrect_file \<mapsto> six_entries])
   \<and> \<not> process_invoked
         (calls (example_env (PDict [(''incorrect_prediction_0'', PStr ''x'')]) 0)
            [incorrect_file \<mapsto> six_entries])
   \<and> outcome (example_env (PDict [(''incorrect_prediction_0'', PStr ''x'')]) 0)
        [incorrect_file \<mapsto> six_entries]
     = Inl MlflowException"
  by (simp add: model_defs marker_appended_def process_invoked_def)

text \<open>
  Claim C5, as amended. Take a run that reaches the incorrect-predictions step and in
  which the tracking backend refuses no call, with incorrect\_predictions.json existing
  and decoded to a collection of \<open>n\<close> entries: right after reading the file the run logs
  the metric \<open>num_incorrect_predictions\<close> with the value \<open>n\<close> and then, for each index
  \<open>i\<close> below \<open>n\<close> in turn, the parameter \<open>incorrect_prediction_i\<close> with the entry at
  that index.
\<close>

theorem incorrect_predictions_are_logged:
  assumes "fs incorrect_file = Some content"
    and "json_loads env content = Inr v"
    and "py_len v = Inr n"
    and "py_iter v = Inr entries"
    and "PathExists incorrect_file \<in> set (calls env fs)"
    and "outcome env fs \<noteq> Inl MlflowException"
  shows "length entries = n
       \<and> (\<exists>pre post. calls env fs =
             pre @ [PathExists incorrect_file, JsonLoad incorrect_file,
                    LogMetric ''num_incorrect_predictions'' (PInt (int n))]
             @ map (\<lambda>i. LogParam (''incorrect_prediction_'' @ decimal i) (Raw (entries ! i)))
                 [0..<n]
             @ post)"
proof -
  have l: "length entries = n"
    using py_len_iter [of v n] assms(3,4) by auto
  have r: "incorrect_read env fs = Some (n, entries)"
    using assms(1-4) by (rule incorrect_read_eq)
  have s: "scores_ok env fs"
    using assms(5) by (simp add: reaches_incorrect)
  have "incorrect_outcome env (before_incorrect env fs) fs \<noteq> Inl MlflowException"
    using assms(6) scores_ok_outcome [OF s] by (simp add: outcome_eq)
  then have a: "all_taken env
                  (before_incorrect env fs @ [PathExists incorrect_file, JsonLoad incorrect_file])
                  (incorrect_logs env fs)"
    using incorrect_outcome_refusal [of fs content env v n "before_incorrect env fs"] assms(1-3)
    by simp
  have "calls env fs =
          (preamble env @ results_taken env @ scores_calls env (before_scores env) fs)
          @ [PathExists incorrect_file, JsonLoad incorrect_file,
             LogMetric ''num_incorrect_predictions'' (PInt (int n))]
          @ map (\<lambda>i. LogParam (''incorrect_prediction_'' @ decimal i) (Raw (entries ! i)))
              [0..<n]
          @ ((if fires env (before_incorrect env fs) fs then trigger_calls env else [])
             @ [EndRun (end_status (incorrect_outcome env (before_incorrect env fs) fs))])"
    using l
    by (simp add: scores_ok_calls [OF s]
        incorrect_calls_all_taken [where fs=fs and env=env, OF assms(1) a]
        incorrect_logs_eq [OF r])
  then show ?thesis using l by blast
qed

theorem incorrect_predictions_are_logged_witness:
  "PathExists incorrect_file \<in> set (calls (example_env PNone 0) [incorrect_file \<mapsto> six_entries])
   \<and> outcome (example_env PNone 0) [incorrect_file \<mapsto> six_entries] = Inr ()
   \<and> (\<exists>pre post.
        calls (example_env PNone 0) [incorrect_file \<mapsto> six_entries] =
          pre @ [PathExists ''incorrect_predictions.json'', JsonLoad ''incorrect_predictions.json'',
                 LogMetric ''num_incorrect_predictions'' (PInt 6),
                 LogParam ''incorrect_prediction_0'' (Raw (PInt 1)),
                 LogParam ''incorrect_prediction_1'' (Raw (PInt 2)),
                 LogParam ''incorrect_prediction_2'' (Raw (PInt 3)),
                 LogParam ''incorrect_prediction_3'' (Raw (PInt 4)),
                 LogParam ''incorrect_prediction_4'' (Raw (PInt 5)),
                 LogParam ''incorrect_prediction_5'' (Raw (PInt 6))]
          @ post)"
proof -
  have a: "[incorrect_file \<mapsto> six_entries] incorrect_file = Some six_entries"
    by simp
  have b: "json_loads (example_env PNone 0) six_entries
           = Inr (PList [PInt 1, PInt 2, PInt 3, PInt 4, PInt 5, PInt 6])"
    by (simp add: example_env_def example_json_loads_def six_entries_def utf8_valid_def)
  have c: "py_len (PList [PInt 1, PInt 2, PInt 3, PInt 4, PInt 5, PInt 6]) = Inr 6"
    by simp
  have d: "py_iter (PList [PInt 1, PInt 2, PInt 3, PInt 4, PInt 5, PInt 6])
           = Inr [PInt 1, PInt 2, PInt 3, PInt 4, PInt 5, PInt 6]"
    by simp
  have e: "PathExists incorrect_file
             \<in> set (calls (example_env PNone 0) [incorrect_file \<mapsto> six_entries])"
    by (simp add: model_defs)
  have f: "outcome (example_env PNone 0) [incorrect_file \<mapsto> six_entries] = Inr ()"
    by (simp add: model_defs)
  have g: "outcome (example_env PNone 0) [incorrect_file \<mapsto> six_entries] \<noteq> Inl MlflowException"
    using f by simp
  have u: "[0..<6] = [0, 1, 2, 3, 4, 5]"
    by (simp add: upt_rec)
  have k: "decimal 0 = ''0''" "decimal (Suc 0) = ''1''" "decimal 2 = ''2''" "decimal 3 = ''3''"
    "decimal 4 = ''4''" "decimal 5 = ''5''"
    by (simp_all add: decimal_small digit_char_def)
  show ?thesis
    using e f incorrect_predictions_are_logged [OF a b c d e g]
    by (simp add: u k incorrect_file_def)
qed

text \<open>
  The claim as it is written fails in the two runs of C1, each with six entries in
  incorrect\_predictions.json. In the first, scores.json holds a JSON array, the scores
  step raises, and nothing is logged from incorrect\_predictions.json. In the second the
  evaluation result has logged the parameter \<open>incorrect_prediction_0\<close> with the value
  \<open>x\<close>: the metric is logged, the backend refuses the first parameter, and no
  parameter of the six is logged.
\<close>

theorem incorrect_predictions_counterexample:
  "[scores_file \<mapsto> ''[]'', incorrect_file \<mapsto> six_entries] incorrect_file = Some six_entries
   \<and> json_loads (example_env PNone 0) six_entries
     = Inr (PList [PInt 1, PInt 2, PInt 3, PInt 4, PInt 5, PInt 6])
   \<and> py_len (PList [PInt 1, PInt 2, PInt 3, PInt 4, PInt 5, PInt 6]) = Inr 6
   \<and> calls (example_env PNone 0) [scores_file \<mapsto> ''[]'', incorrect_file \<mapsto> six_entries]
     = [GetEvaluationConfig, NewEvaluation, DagshubInit, StartRun ''Evaluation'',
        LogParam ''image_size'' (Raw (PList [PInt 224, PInt 224, PInt 3])),
        LogParam ''batch_size'' (Raw (PInt 16)),
        RunEvaluation, PathExists ''scores.json'', JsonLoad ''scores.json'', EndRun FAILED]
   \<and> calls (example_env (PDict [(''incorrect_prediction_0'', PStr ''x'')]) 0)
        [incorrect_file \<mapsto> six_entries]
     = [GetEvaluationConfig, NewEvaluation, DagshubInit, StartRun ''Evaluation'',
        LogParam ''image_size'' (Raw (PList [PInt 224, PInt 224, PInt 3])),
        LogParam ''batch_size'' (Raw (PInt 16)),
        RunEvaluation,
        LogParam ''incorrect_prediction_0'' (Str (PStr ''x'')),
        PathExists ''scores.json'',
        PathExists ''incorrect_predictions.json'', JsonLoad ''incorrect_predictions.json'',
        LogMetric ''num_incorrect_predictions'' (PInt 6),
        EndRun FAILED]"
  by (simp add: model_defs)

text \<open>
  Claim C4, as amended. When the evaluation function returns a mapping, the calls that
  follow the evaluation are one call for each item, in the order of the items, up to the
  first call that the tracking backend refuses: \<open>log_metric\<close> of the key and the value
  when the value is an int or a float (a bool is an int), \<open>log_param\<close> of the key and
  \<open>str\<close> of the value otherwise. When the backend takes them all, the check for
  scores.json follows; at a refusal \<open>main\<close> ends with the backend's exception. In a run
  in which the backend refuses no call, every item is logged.
\<close>

theorem results_are_logged:
  assumes "evaluation_result env = PDict items"
  shows "(\<exists>k post. k \<le> length items
          \<and> calls env fs =
              [GetEvaluationConfig, NewEvaluation, DagshubInit, StartRun STAGE_NAME,
               LogParam ''image_size'' (Raw (params_image_size (get_evaluation_config env))),
               LogParam ''batch_size'' (Raw (params_batch_size (get_evaluation_config env))),
               RunEvaluation]
              @ take k (map (\<lambda>(k, v). if isinstance_int_float v then LogMetric k v
                                       else LogParam k (Str v)) items)
              @ post
          \<and> (if k = length items then (\<exists>rest. post = PathExists scores_file # rest)
             else post = [EndRun FAILED] \<and> outcome env fs = Inl MlflowException
                  \<and> refused env
                       ([GetEvaluationConfig, NewEvaluation, DagshubInit, StartRun STAGE_NAME,
                         LogParam ''image_size''
                           (Raw (params_image_size (get_evaluation_config env))),
                         LogParam ''batch_size''
                           (Raw (params_batch_size (get_evaluation_config env))),
                         RunEvaluation]
                        @ take k (map (\<lambda>(k, v). if isinstance_int_float v then LogMetric k v
                                                 else LogParam k (Str v)) items))
                       ((\<lambda>(k, v). if isinstance_int_float v then LogMetric k v
                                  else LogParam k (Str v)) (items ! k))))
       \<and> (outcome env fs \<noteq> Inl MlflowException \<longrightarrow>
            (\<forall>(k, v) \<in> set items.
               if isinstance_int_float v then LogMetric k v \<in> set (calls env fs)
               else LogParam k (Str v) \<in> set (calls env fs)))"
proof -
  let ?f = "\<lambda>(k, v). if isinstance_int_float v then LogMetric k v else LogParam k (Str v)"
  have f: "result_call = ?f"
    by (rule ext) (simp add: result_call_def split: prod.splits)
  have rc: "results_calls (evaluation_result env) = map ?f items"
    using assms by (simp add: results_calls_def f)
  define k where "k = length (results_taken env)"
  have kl: "k \<le> length items"
    using length_taken [of env "preamble env" "map ?f items"]
    by (simp add: k_def results_taken_def rc)
  have tk: "results_taken env = take k (map ?f items)"
    using taken_take [of env "preamble env" "map ?f items"]
    by (simp add: k_def results_taken_def rc)
  have ok: "results_ok env \<longleftrightarrow> k = length items"
    by (simp add: results_ok_def all_taken_iff k_def results_taken_def rc)
  have first: "\<exists>k post. k \<le> length items
          \<and> calls env fs =
              [GetEvaluationConfig, NewEvaluation, DagshubInit, StartRun STAGE_NAME,
               LogParam ''image_size'' (Raw (params_image_size (get_evaluation_config env))),
               LogParam ''batch_size'' (Raw (params_batch_size (get_evaluation_config env))),
               RunEvaluation]
              @ take k (map ?f items) @ post
          \<and> (if k = length items then (\<exists>rest. post = PathExists scores_file # rest)
             else post = [EndRun FAILED] \<and> outcome env fs = Inl MlflowException
                  \<and> refused env
                       ([GetEvaluationConfig, NewEvaluation, DagshubInit, StartRun STAGE_NAME,
                         LogParam ''image_size''
                           (Raw (params_image_size (get_evaluation_config env))),
                         LogParam ''batch_size''
                           (Raw (params_batch_size (get_evaluation_config env))),
                         RunEvaluation]
                        @ take k (map ?f items))
                       (?f (items ! k)))"
  proof (cases "results_ok env")
    case True
    obtain rest where s: "scores_calls env (before_scores env) fs = PathExists scores_file # rest"
      using scores_calls_head by blast
    let ?post = "steps_calls env fs @ [EndRun (end_status (steps_outcome env fs))]"
    have "calls env fs = preamble env @ take k (map ?f items) @ ?post"
      by (simp add: calls_eq tk)
    moreover have "\<exists>rest. ?post = PathExists scores_file # rest"
      using True s by (simp add: steps_calls_def)
    ultimately show ?thesis
      using kl True ok unfolding preamble_def by (intro exI [of _ k] exI [of _ ?post]) simp
  next
    case False
    then have c: "calls env fs = preamble env @ take k (map ?f items) @ [EndRun FAILED]"
      and o: "outcome env fs = Inl MlflowException"
      by (simp_all add: calls_eq tk outcome_eq steps_calls_def steps_outcome_def end_status_def)
    from False have "\<not> all_taken env (preamble env) (map ?f items)"
      by (simp add: results_ok_def rc)
    note fr = first_refused [OF this]
    have lt: "k < length items"
      using fr by (simp add: k_def results_taken_def rc)
    have r0: "refused env (preamble env @ results_taken env) (map ?f items ! k)"
      using fr unfolding k_def results_taken_def rc by (rule conjunct2)
    have "map ?f items ! k = ?f (items ! k)"
      using lt by (rule nth_map)
    with r0 have r: "refused env (preamble env @ take k (map ?f items)) (?f (items ! k))"
      using tk by metis
    show ?thesis
      using kl lt c o r unfolding preamble_def
      by (intro exI [of _ k] exI [of _ "[EndRun FAILED]"]) simp
  qed
  have second: "\<forall>(k, v) \<in> set items.
               if isinstance_int_float v then LogMetric k v \<in> set (calls env fs)
               else LogParam k (Str v) \<in> set (calls env fs)"
    if "outcome env fs \<noteq> Inl MlflowException"
  proof -
    from that have "results_ok env"
      by (auto simp: outcome_eq steps_outcome_def split: if_splits)
    then have "results_taken env = map ?f items"
      using results_ok_taken rc by simp
    then have m: "?f kv \<in> set (calls env fs)" if "kv \<in> set items" for kv
      using that by (simp add: calls_eq)
    show ?thesis
    proof (clarify)
      fix a b assume "(a, b) \<in> set items"
      from m [OF this] show "if isinstance_int_float b then LogMetric a b \<in> set (calls env fs)
            else LogParam a (Str b) \<in> set (calls env fs)"
        by (simp split: if_splits)
    qed
  qed
  from first second show ?thesis by blast
qed

theorem results_are_logged_witness:
  "evaluation_result
     (example_env (PDict [(''accuracy'', PFloat (Finite 7 (- 3))), (''note'', PStr ''fine'')]) 0)
     = PDict [(''accuracy'', PFloat (Finite 7 (- 3))), (''note'', PStr ''fine'')]
   \<and> outcome
       (example_env (PDict [(''accuracy'', PFloat (Finite 7 (- 3))), (''note'', PStr ''fine'')]) 0)
       Map.empty = Inr ()
   \<and> LogMetric ''accuracy'' (PFloat (Finite 7 (- 3)))
        \<in> set (calls (example_env (PDict [(''accuracy'', PFloat (Finite 7 (- 3))),
                    (''note'', PStr ''fine'')]) 0) Map.empty)
   \<and> LogParam ''note'' (Str (PStr ''fine''))
        \<in> set (calls (example_env (PDict [(''accuracy'', PFloat (Finite 7 (- 3))),
                    (''note'', PStr ''fine'')]) 0) Map.empty)"
proof -
  have a: "evaluation_result
     (example_env (PDict [(''accuracy'', PFloat (Finite 7 (- 3))), (''note'', PStr ''fine'')]) 0)
     = PDict [(''accuracy'', PFloat (Finite 7 (- 3))), (''note'', PStr ''fine'')]"
    by (simp add: example_env_def)
  have b: "outcome
       (example_env (PDict [(''accuracy'', PFloat (Finite 7 (- 3))), (''note'', PStr ''fine'')]) 0)
       Map.empty = Inr ()"
    by (simp add: model_defs)
  show ?thesis
    using a b results_are_logged [OF a, of Map.empty] by simp
qed

text \<open>
  The claim as it is written fails when an item of the mapping is refused: the result
  holds \<open>batch_size\<close> with the value \<open>sixteen\<close>, which is no number, so it is logged as
  a parameter; the run has already logged the parameter \<open>batch_size\<close> with the value 16,
  and the backend refuses the change. Neither this item nor the metric after it is
  logged.
\<close>

theorem results_logging_counterexample:
  "calls (example_env (PDict [(''batch_size'', PStr ''sixteen''), (''loss'', PInt 1)]) 0) Map.empty
     = [GetEvaluationConfig, NewEvaluation, DagshubInit, StartRun ''Evaluation'',
        LogParam ''image_size'' (Raw (PList [PInt 224, PInt 224, PInt 3])),
        LogParam ''batch_size'' (Raw (PInt 16)),
        RunEvaluation, EndRun FAILED]
   \<and> LogParam ''batch_size'' (Str (PStr ''sixteen''))
       \<notin> set (calls (example_env (PDict [(''batch_size'', PStr ''sixteen''), (''loss'', PInt 1)]) 0)
                 Map.empty)
   \<and> LogMetric ''loss'' (PInt 1)
       \<notin> set (calls (example_env (PDict [(''batch_size'', PStr ''sixteen''), (''loss'', PInt 1)]) 0)
                 Map.empty)
   \<and> outcome (example_env (PDict [(''batch_size'', PStr ''sixteen''), (''loss'', PInt 1)]) 0)
        Map.empty
     = Inl MlflowException"
  by (simp add: model_defs)

text \<open>
  Claim C2, as amended. In a run that reaches the scores step with no scores.json, the
  file is not read and the call that follows the check for it is the check for
  incorrect\_predictions.json: the step is skipped and the run goes on without raising.
  When incorrect\_predictions.json does not exist it is not read, the trigger does not
  fire and no file changes; and in a run that reaches the incorrect-predictions step,
  \<open>main\<close> then returns normally, the tracking run ending as finished right after the
  check.
\<close>

theorem missing_files_are_skipped:
  "(fs scores_file = None \<longrightarrow> JsonLoad scores_file \<notin> set (calls env fs))
   \<and> (fs scores_file = None \<and> PathExists scores_file \<in> set (calls env fs) \<longrightarrow>
        (\<exists>pre post. calls env fs =
           pre @ [PathExists scores_file, PathExists incorrect_file] @ post))
   \<and> (fs incorrect_file = None \<longrightarrow>
        JsonLoad incorrect_file \<notin> set (calls env fs)
        \<and> \<not> marker_appended (calls env fs) \<and> \<not> process_invoked (calls env fs)
        \<and> files_after env fs = fs)
   \<and> (fs incorrect_file = None \<and> PathExists incorrect_file \<in> set (calls env fs) \<longrightarrow>
        outcome env fs = Inr ()
        \<and> (\<exists>pre. calls env fs = pre @ [PathExists incorrect_file, EndRun FINISHED]))"
proof (intro conjI impI)
  assume s: "fs scores_file = None"
  show "JsonLoad scores_file \<notin> set (calls env fs)"
    using s by (simp add: reads_scores)
next
  assume a: "fs scores_file = None \<and> PathExists scores_file \<in> set (calls env fs)"
  then have s: "fs scores_file = None" and r: "results_ok env"
    by (simp_all add: reaches_scores)
  have k: "scores_ok env fs"
    using r scores_absent(2) [where fs=fs and env=env, OF s] by (simp add: scores_ok_def)
  obtain rest where i:
    "incorrect_calls env (before_incorrect env fs) fs = PathExists incorrect_file # rest"
    using incorrect_calls_head by blast
  have "calls env fs =
          (preamble env @ results_taken env)
          @ [PathExists scores_file, PathExists incorrect_file]
          @ (rest @ [EndRun (end_status (incorrect_outcome env (before_incorrect env fs) fs))])"
    by (simp add: scores_ok_calls [OF k] scores_absent(1) [where fs=fs and env=env, OF s] i)
  then show "\<exists>pre post. calls env fs =
            pre @ [PathExists scores_file, PathExists incorrect_file] @ post"
    by blast
next
  assume i: "fs incorrect_file = None"
  have n: "\<not> retrains env fs"
    using incorrect_absent(3) [where fs=fs and env=env, OF i] by (simp add: retrains_def)
  show "JsonLoad incorrect_file \<notin> set (calls env fs)"
    using i by (simp add: reads_incorrect)
  show "\<not> marker_appended (calls env fs)"
    using n by (simp add: marker_appended_iff)
  show "\<not> process_invoked (calls env fs)"
    using n by (simp add: process_invoked_iff)
  show "files_after env fs = fs"
    using n by (simp add: files_after_eq steps_files_eq)
next
  assume a: "fs incorrect_file = None \<and> PathExists incorrect_file \<in> set (calls env fs)"
  then have i: "fs incorrect_file = None" and k: "scores_ok env fs"
    by (simp_all add: reaches_incorrect)
  show "outcome env fs = Inr ()"
    by (simp add: outcome_eq scores_ok_outcome [OF k]
        incorrect_absent(2) [where fs=fs and env=env, OF i])
  have "calls env fs =
          (preamble env @ results_taken env @ scores_calls env (before_scores env) fs)
          @ [PathExists incorrect_file, EndRun FINISHED]"
    by (simp add: scores_ok_calls [OF k] incorrect_absent(1,2) [where fs=fs and env=env, OF i]
        end_status_def)
  then show "\<exists>pre. calls env fs = pre @ [PathExists incorrect_file, EndRun FINISHED]"
    by blast
qed

theorem missing_files_are_skipped_witness:
  "Map.empty scores_file = (None :: string option)
   \<and> Map.empty incorrect_file = (None :: string option)
   \<and> PathExists scores_file \<in> set (calls (example_env PNone 0) Map.empty)
   \<and> PathExists incorrect_file \<in> set (calls (example_env PNone 0) Map.empty)
   \<and> outcome (example_env PNone 0) Map.empty = Inr ()
   \<and> JsonLoad scores_file \<notin> set (calls (example_env PNone 0) Map.empty)
   \<and> JsonLoad incorrect_file \<notin> set (calls (example_env PNone 0) Map.empty)
   \<and> files_after (example_env PNone 0) Map.empty = Map.empty
   \<and> (\<exists>pre post. calls (example_env PNone 0) Map.empty =
         pre @ [PathExists scores_file, PathExists incorrect_file] @ post)"
proof -
  have a: "PathExists scores_file \<in> set (calls (example_env PNone 0) Map.empty)"
    by (simp add: model_defs)
  have b: "PathExists incorrect_file \<in> set (calls (example_env PNone 0) Map.empty)"
    by (simp add: model_defs)
  show ?thesis
    using a b missing_files_are_skipped [of Map.empty "example_env PNone 0"] by simp
qed

text \<open>
  The claim as it is written fails in two runs. In the first there is no scores.json and
  the evaluation result holds \<open>batch_size\<close> with the value \<open>sixteen\<close>: the backend
  refuses the parameter, \<open>main\<close> raises, and the run never goes on to the
  incorrect-predictions step. In the second there is no incorrect\_predictions.json and
  scores.json holds a JSON array: \<open>main\<close> raises \<open>AttributeError\<close> from the scores step
  and does not complete normally.
\<close>

theorem missing_files_counterexample:
  "(Map.empty :: string \<rightharpoonup> string) scores_file = None
   \<and> PathExists incorrect_file
       \<notin> set (calls (example_env (PDict [(''batch_size'', PStr ''sixteen'')]) 0) Map.empty)
   \<and> outcome (example_env (PDict [(''batch_size'', PStr ''sixteen'')]) 0) Map.empty
     = Inl MlflowException
   \<and> [scores_file \<mapsto> ''[]''] incorrect_file = None
   \<and> outcome (example_env PNone 0) [scores_file \<mapsto> ''[]''] = Inl AttributeError
   \<and> calls (example_env PNone 0) [scores_file \<mapsto> ''[]'']
     = [GetEvaluationConfig, NewEvaluation, DagshubInit, StartRun ''Evaluation'',
        LogParam ''image_size'' (Raw (PList [PInt 224, PInt 224, PInt 3])),
        LogParam ''batch_size'' (Raw (PInt 16)),
        RunEvaluation, PathExists ''scores.json'', JsonLoad ''scores.json'', EndRun FAILED]"
  by (simp add: model_defs)

text \<open>
  Claim C8, as amended. A \<open>JSONDecodeError\<close> never leaves \<open>main\<close>. When reading
  scores.json raises it, the error is caught and the run goes on: the call that follows
  the reading is the check for incorrect\_predictions.json. When
  incorrect\_predictions.json holds a text for which reading raises it, the trigger does
  not fire and no file changes; and when the run reads the file, nothing is logged from it
  (the tracking run ends as finished right after the reading) and \<open>main\<close> returns
  normally.
\<close>

theorem decode_errors_are_caught:
  "(\<forall>msg. outcome env fs \<noteq> Inl (JSONDecodeError msg))
   \<and> (\<forall>content msg. fs scores_file = Some content
          \<and> json_loads env content = Inl (DecodeError msg)
          \<and> JsonLoad scores_file \<in> set (calls env fs) \<longrightarrow>
        (\<exists>pre post. calls env fs =
           pre @ [PathExists scores_file, JsonLoad scores_file, PathExists incorrect_file]
           @ post))
   \<and> (\<forall>content msg. fs incorrect_file = Some content
          \<and> json_loads env content = Inl (DecodeError msg) \<longrightarrow>
        \<not> marker_appended (calls env fs) \<and> \<not> process_invoked (calls env fs)
        \<and> files_after env fs = fs)
   \<and> (\<forall>content msg. fs incorrect_file = Some content
          \<and> json_loads env content = Inl (DecodeError msg)
          \<and> JsonLoad incorrect_file \<in> set (calls env fs) \<longrightarrow>
        outcome env fs = Inr ()
        \<and> (\<exists>pre. calls env fs =
              pre @ [PathExists incorrect_file, JsonLoad incorrect_file, EndRun FINISHED]))"
proof (intro conjI allI impI)
  fix msg
  show "outcome env fs \<noteq> Inl (JSONDecodeError msg)"
    by (simp add: outcome_eq steps_outcome_not_decode_error)
next
  fix content msg
  assume "fs scores_file = Some content \<and> json_loads env content = Inl (DecodeError msg)
          \<and> JsonLoad scores_file \<in> set (calls env fs)"
  then have s: "fs scores_file = Some content"
    and d: "json_loads env content = Inl (DecodeError msg)"
    and r: "results_ok env"
    by (simp_all add: reads_scores)
  have k: "scores_ok env fs"
    using r scores_undecodable(2) [where fs=fs and env=env, OF s d] by (simp add: scores_ok_def)
  obtain rest where i:
    "incorrect_calls env (before_incorrect env fs) fs = PathExists incorrect_file # rest"
    using incorrect_calls_head by blast
  have "calls env fs =
          (preamble env @ results_taken env)
          @ [PathExists scores_file, JsonLoad scores_file, PathExists incorrect_file]
          @ (rest @ [EndRun (end_status (incorrect_outcome env (before_incorrect env fs) fs))])"
    by (simp add: scores_ok_calls [OF k] scores_undecodable(1) [where fs=fs and env=env, OF s d] i)
  then show "\<exists>pre post. calls env fs =
           pre @ [PathExists scores_file, JsonLoad scores_file, PathExists incorrect_file]
           @ post"
    by blast
next
  fix content msg
  assume "fs incorrect_file = Some content \<and> json_loads env content = Inl (DecodeError msg)"
  then have i: "fs incorrect_file = Some content"
    and d: "json_loads env content = Inl (DecodeError msg)"
    by simp_all
  have n: "\<not> retrains env fs"
    using incorrect_undecodable(3) [where fs=fs and env=env, OF i d] by (simp add: retrains_def)
  show "\<not> marker_appended (calls env fs)"
    using n by (simp add: marker_appended_iff)
  show "\<not> process_invoked (calls env fs)"
    using n by (simp add: process_invoked_iff)
  show "files_after env fs = fs"
    using n by (simp add: files_after_eq steps_files_eq)
next
  fix content msg
  assume "fs incorrect_file = Some content \<and> json_loads env content = Inl (DecodeError msg)
          \<and> JsonLoad incorrect_file \<in> set (calls env fs)"
  then have i: "fs incorrect_file = Some content"
    and d: "json_loads env content = Inl (DecodeError msg)"
    and k: "scores_ok env fs"
    by (simp_all add: reads_incorrect)
  show "outcome env fs = Inr ()"
    by (simp add: outcome_eq scores_ok_outcome [OF k]
        incorrect_undecodable(2) [where fs=fs and env=env, OF i d])
  have "calls env fs =
          (preamble env @ results_taken env @ scores_calls env (before_scores env) fs)
          @ [PathExists incorrect_file, JsonLoad incorrect_file, EndRun FINISHED]"
    by (simp add: scores_ok_calls [OF k]
        incorrect_undecodable(1,2) [where fs=fs and env=env, OF i d] end_status_def)
  then show "\<exists>pre. calls env fs =
              pre @ [PathExists incorrect_file, JsonLoad incorrect_file, EndRun FINISHED]"
    by blast
qed

theorem decode_errors_are_caught_witness:
  "[scores_file \<mapsto> ''{bad'', incorrect_file \<mapsto> ''{bad''] scores_file = Some ''{bad''
   \<and> [scores_file \<mapsto> ''{bad'', incorrect_file \<mapsto> ''{bad''] incorrect_file = Some ''{bad''
   \<and> json_loads (example_env PNone 0) ''{bad'' = Inl (DecodeError ''Expecting value'')
   \<and> JsonLoad scores_file
       \<in> set (calls (example_env PNone 0) [scores_file \<mapsto> ''{bad'', incorrect_file \<mapsto> ''{bad''])
   \<and> JsonLoad incorrect_file
       \<in> set (calls (example_env PNone 0) [scores_file \<mapsto> ''{bad'', incorrect_file \<mapsto> ''{bad''])
   \<and> outcome (example_env PNone 0) [scores_file \<mapsto> ''{bad'', incorrect_file \<mapsto> ''{bad'']
       = Inr ()
   \<and> \<not> marker_appended
         (calls (example_env PNone 0) [scores_file \<mapsto> ''{bad'', incorrect_file \<mapsto> ''{bad''])
   \<and> (\<exists>pre. calls (example_env PNone 0) [scores_file \<mapsto> ''{bad'', incorrect_file \<mapsto> ''{bad'']
          = pre @ [PathExists incorrect_file, JsonLoad incorrect_file, EndRun FINISHED])"
proof -
  have a: "[scores_file \<mapsto> ''{bad'', incorrect_file \<mapsto> ''{bad''] scores_file = Some ''{bad''"
    by (simp add: scores_file_def incorrect_file_def)
  have b: "[scores_file \<mapsto> ''{bad'', incorrect_file \<mapsto> ''{bad''] incorrect_file = Some ''{bad''"
    by simp
  have c: "json_loads (example_env PNone 0) ''{bad'' = Inl (DecodeError ''Expecting value'')"
    by (simp add: example_env_def example_json_loads_def utf8_valid_def)
  have d: "JsonLoad scores_file
       \<in> set (calls (example_env PNone 0) [scores_file \<mapsto> ''{bad'', incorrect_file \<mapsto> ''{bad''])"
    by (simp add: model_defs)
  have e: "JsonLoad incorrect_file
       \<in> set (calls (example_env PNone 0) [scores_file \<mapsto> ''{bad'', incorrect_file \<mapsto> ''{bad''])"
    by (simp add: model_defs)
  show ?thesis
    using a b c d e
      decode_errors_are_caught
        [of "example_env PNone 0" "[scores_file \<mapsto> ''{bad'', incorrect_file \<mapsto> ''{bad'']"]
    by blast
qed

text \<open>
  The claim as it is written fails in four runs. In the first two a file holds a byte
  that is not UTF-8: it is not valid JSON, reading it raises \<open>UnicodeDecodeError\<close>, which
  the \<open>except json.JSONDecodeError\<close> clause lets through, and \<open>main\<close> raises it to the
  caller. In the third the \<open>JSONDecodeError\<close> of scores.json is caught and the run goes
  on, reads six entries and starts a \<open>dvc\<close> process that exits with status 1: \<open>main\<close>
  does not return normally. In the fourth incorrect\_predictions.json is not valid JSON and
  scores.json holds a JSON array: the run ends in the scores step.
\<close>

theorem decode_error_counterexample:
  "json_loads (example_env PNone 0) [CHR 0xFF] = Inl UnicodeError
   \<and> outcome (example_env PNone 0) [scores_file \<mapsto> [CHR 0xFF]] = Inl UnicodeDecodeError
   \<and> PathExists incorrect_file \<notin> set (calls (example_env PNone 0) [scores_file \<mapsto> [CHR 0xFF]])
   \<and> outcome (example_env PNone 0) [incorrect_file \<mapsto> [CHR 0xFF]] = Inl UnicodeDecodeError
   \<and> json_loads (example_env PNone 1) ''{bad'' = Inl (DecodeError ''Expecting value'')
   \<and> outcome (example_env PNone 1) [scores_file \<mapsto> ''{bad'', incorrect_file \<mapsto> six_entries]
     = Inl (CalledProcessError 1)
   \<and> outcome (example_env PNone 0) [scores_file \<mapsto> ''[]'', incorrect_file \<mapsto> ''{bad'']
     = Inl AttributeError"
  by (simp add: model_defs)




text \<open>
  Claim C6, as amended. The calls of every run have one of three shapes. All begin with
  the same calls in the same order: the configuration is fetched, the component and the
  tracking are set up, the two configuration parameters are logged, and the evaluation is
  run; then come the calls that log the evaluation results. A run that raises there ends.
  Otherwise the check for scores.json follows, then the reading of the file (when it
  exists) and the calls that log its metrics. A run that raises there ends. Otherwise the
  check for incorrect\_predictions.json follows, then the reading of the file (when it
  exists) and the calls that log from it, then nothing or the append to
  retrain\_trigger.txt followed by the child process, and the run ends. The trigger is
  there only when the file holds more than five entries, and a run that returns normally
  without it has no such file.
\<close>

theorem steps_are_ordered:
  "\<exists>L6. list_all is_log_call L6 \<and>
     (calls env fs =
        [GetEvaluationConfig, NewEvaluation, DagshubInit, StartRun STAGE_NAME,
         LogParam ''image_size'' (Raw (params_image_size (get_evaluation_config env))),
         LogParam ''batch_size'' (Raw (params_batch_size (get_evaluation_config env))),
         RunEvaluation]
        @ L6 @ [EndRun FAILED]
      \<or> (\<exists>R7. (R7 = [] \<or> (\<exists>L7. R7 = JsonLoad scores_file # L7 \<and> list_all is_log_call L7))
           \<and> (calls env fs =
                [GetEvaluationConfig, NewEvaluation, DagshubInit, StartRun STAGE_NAME,
                 LogParam ''image_size'' (Raw (params_image_size (get_evaluation_config env))),
                 LogParam ''batch_size'' (Raw (params_batch_size (get_evaluation_config env))),
                 RunEvaluation]
                @ L6 @ [PathExists scores_file] @ R7 @ [EndRun FAILED]
              \<or> (\<exists>R8 T st.
                   (R8 = [] \<or> (\<exists>L8. R8 = JsonLoad incorrect_file # L8 \<and> list_all is_log_call L8))
                   \<and> (T = []
                      \<or> T = [AppendWrite trigger_file
                               (''Retraining triggered at '' @ isoformat (now env) @ [CHR 0x0A]),
                             SubprocessRun dvc_command])
                   \<and> calls env fs =
                       [GetEvaluationConfig, NewEvaluation, DagshubInit, StartRun STAGE_NAME,
                        LogParam ''image_size''
                          (Raw (params_image_size (get_evaluation_config env))),
                        LogParam ''batch_size''
                          (Raw (params_batch_size (get_evaluation_config env))),
                        RunEvaluation]
                       @ L6 @ [PathExists scores_file] @ R7 @ [PathExists incorrect_file]
                       @ R8 @ T @ [EndRun st]
                   \<and> (st = FINISHED) = (outcome env fs = Inr ())
                   \<and> (T \<noteq> [] \<longrightarrow>
                        (\<exists>content v n. fs incorrect_file = Some content
                           \<and> json_loads env content = Inr v \<and> py_len v = Inr n \<and> 5 < n))
                   \<and> (T = [] \<and> st = FINISHED \<longrightarrow>
                        \<not> (\<exists>content v n. fs incorrect_file = Some content
                             \<and> json_loads env content = Inr v \<and> py_len v = Inr n
                             \<and> 5 < n))))))"
proof -
  let ?P = "[GetEvaluationConfig, NewEvaluation, DagshubInit, StartRun STAGE_NAME,
         LogParam ''image_size'' (Raw (params_image_size (get_evaluation_config env))),
         LogParam ''batch_size'' (Raw (params_batch_size (get_evaluation_config env))),
         RunEvaluation]"
  let ?over = "\<exists>content v n. fs incorrect_file = Some content
                 \<and> json_loads env content = Inr v \<and> py_len v = Inr n \<and> 5 < n"
  have p: "preamble env = ?P" by (simp add: preamble_def)
  have l6: "list_all is_log_call (results_taken env)"
    using results_taken_log by (auto simp: list_all_iff)
  show ?thesis
  proof (cases "results_ok env")
    case False
    then have "calls env fs = ?P @ results_taken env @ [EndRun FAILED]"
      by (simp add: calls_eq steps_calls_def steps_outcome_def end_status_def p)
    then show ?thesis
      apply (intro exI [of _ "results_taken env"] conjI l6)
      apply (rule disjI1)
      apply assumption
      done
  next
    case True
    obtain R7 where s: "scores_calls env (before_scores env) fs = PathExists scores_file # R7"
      and r7: "R7 = [] \<or> (\<exists>L7. R7 = JsonLoad scores_file # L7 \<and> list_all is_log_call L7)"
      using scores_calls_shape by blast
    show ?thesis
    proof (cases "scores_ok env fs")
      case False
      with True obtain e where "scores_outcome env (before_scores env) fs = Inl e"
        by (cases "scores_outcome env (before_scores env) fs") (auto simp: scores_ok_def)
      with True False
      have "calls env fs = ?P @ results_taken env @ [PathExists scores_file] @ R7 @ [EndRun FAILED]"
        by (simp add: calls_eq steps_calls_def steps_outcome_def end_status_def p s)
      then show ?thesis
        apply (intro exI [of _ "results_taken env"] conjI l6)
        apply (rule disjI2)
        apply (intro exI [of _ R7] conjI r7)
        apply (rule disjI1)
        apply assumption
        done
    next
      case k: True
      let ?t = "before_incorrect env fs"
      let ?T = "if fires env ?t fs then trigger_calls env else []"
      let ?st = "end_status (incorrect_outcome env ?t fs)"
      obtain R8 where i: "incorrect_calls env ?t fs = PathExists incorrect_file # R8 @ ?T"
        and r8: "R8 = [] \<or> (\<exists>L8. R8 = JsonLoad incorrect_file # L8 \<and> list_all is_log_call L8)"
        using incorrect_calls_shape by blast
      have c: "calls env fs =
                 ?P @ results_taken env @ [PathExists scores_file] @ R7
                 @ [PathExists incorrect_file] @ R8 @ ?T @ [EndRun ?st]"
        by (simp add: scores_ok_calls [OF k] s i p)
      have t: "?T = [] \<or> ?T = [AppendWrite trigger_file
                               (''Retraining triggered at '' @ isoformat (now env) @ [CHR 0x0A]),
                             SubprocessRun dvc_command]"
        by (simp add: trigger_calls_def retraining_message_def)
      have o: "(?st = FINISHED) = (outcome env fs = Inr ())"
        by (simp add: end_status_finished outcome_eq scores_ok_outcome [OF k])
      have u: "?T \<noteq> [] \<longrightarrow> ?over"
        using fires_threshold [of env ?t fs] by (simp split: if_splits)
      have d: "?T = [] \<and> ?st = FINISHED \<longrightarrow> \<not> ?over"
      proof (intro impI notI)
        assume a: "?T = [] \<and> ?st = FINISHED" and "?over"
        then obtain content v n where f: "fs incorrect_file = Some content"
          "json_loads env content = Inr v" "py_len v = Inr n" "5 < n"
          by blast
        from a have "incorrect_outcome env ?t fs = Inr ()"
          by (simp add: end_status_finished)
        then have "fires env ?t fs"
          using fires_iff [of fs content env v n ?t] f by simp
        with a show False by (simp add: trigger_calls_def)
      qed
      show ?thesis
        apply (intro exI [of _ "results_taken env"] conjI l6)
        apply (rule disjI2)
        apply (intro exI [of _ R7] conjI r7)
        apply (rule disjI2)
        apply (rule exI [of _ R8], rule exI [of _ ?T], rule exI [of _ ?st])
        apply (intro conjI r8 t c o u d)
        done
    qed
  qed
qed

theorem steps_are_ordered_witness:
  "process_invoked (calls (example_env (PDict [(''loss'', PInt 1)]) 0)
      [scores_file \<mapsto> ''{}'', incorrect_file \<mapsto> six_entries])
   \<and> [scores_file \<mapsto> ''{}'', incorrect_file \<mapsto> six_entries] incorrect_file = Some six_entries
   \<and> json_loads (example_env (PDict [(''loss'', PInt 1)]) 0) six_entries
     = Inr (PList [PInt 1, PInt 2, PInt 3, PInt 4, PInt 5, PInt 6])
   \<and> py_len (PList [PInt 1, PInt 2, PInt 3, PInt 4, PInt 5, PInt 6]) = Inr 6
   \<and> outcome (example_env (PDict [(''loss'', PInt 1)]) 0)
       [scores_file \<mapsto> ''{}'', incorrect_file \<mapsto> six_entries] = Inr ()
   \<and> (\<exists>L6. list_all is_log_call L6 \<and>
     (calls (example_env (PDict [(''loss'', PInt 1)]) 0) [scores_file \<mapsto> ''{}'', incorrect_file \<mapsto> six_entries] =
        [GetEvaluationConfig, NewEvaluation, DagshubInit, StartRun STAGE_NAME,
         LogParam ''image_size'' (Raw (params_image_size (get_evaluation_config (example_env (PDict [(''loss'', PInt 1)]) 0)))),
         LogParam ''batch_size'' (Raw (params_batch_size (get_evaluation_config (example_env (PDict [(''loss'', PInt 1)]) 0)))),
         RunEvaluation]
        @ L6 @ [EndRun FAILED]
      \<or> (\<exists>R7. (R7 = [] \<or> (\<exists>L7. R7 = JsonLoad scores_file # L7 \<and> list_all is_log_call L7))
           \<and> (calls (example_env (PDict [(''loss'', PInt 1)]) 0) [scores_file \<mapsto> ''{}'', incorrect_file \<mapsto> six_entries] =
                [GetEvaluationConfig, NewEvaluation, DagshubInit, StartRun STAGE_NAME,
                 LogParam ''image_size'' (Raw (params_image_size (get_evaluation_config (example_env (PDict [(''loss'', PInt 1)]) 0)))),
                 LogParam ''batch_size'' (Raw (params_batch_size (get_evaluation_config (example_env (PDict [(''loss'', PInt 1)]) 0)))),
                 RunEvaluation]
                @ L6 @ [PathExists scores_file] @ R7 @ [EndRun FAILED]
              \<or> (\<exists>R8 T st.
                   (R8 = [] \<or> (\<exists>L8. R8 = JsonLoad incorrect_file # L8 \<and> list_all is_log_call L8))
                   \<and> (T = []
                      \<or> T = [AppendWrite trigger_file
                               (''Retraining triggered at '' @ isoformat (now (example_env (PDict [(''loss'', PInt 1)]) 0)) @ [CHR 0x0A]),
                             SubprocessRun dvc_command])
                   \<and> calls (example_env (PDict [(''loss'', PInt 1)]) 0) [scores_file \<mapsto> ''{}'', incorrect_file \<mapsto> six_entries] =
                       [GetEvaluationConfig, NewEvaluation, DagshubInit, StartRun STAGE_NAME,
                        LogParam ''image_size''
                          (Raw (params_image_size (get_evaluation_config (example_env (PDict [(''loss'', PInt 1)]) 0)))),
                        LogParam ''batch_size''
                          (Raw (params_batch_size (get_evaluation_config (example_env (PDict [(''loss'', PInt 1)]) 0)))),
                        RunEvaluation]
                       @ L6 @ [PathExists scores_file] @ R7 @ [PathExists incorrect_file]
                       @ R8 @ T @ [EndRun st]
                   \<and> (st = FINISHED) = (outcome (example_env (PDict [(''loss'', PInt 1)]) 0) [scores_file \<mapsto> ''{}'', incorrect_file \<mapsto> six_entries] = Inr ())
                   \<and> (T \<noteq> [] \<longrightarrow>
                        (\<exists>content v n. [scores_file \<mapsto> ''{}'', incorrect_file \<mapsto> six_entries] incorrect_file = Some content
                           \<and> json_loads (example_env (PDict [(''loss'', PInt 1)]) 0) content = Inr v \<and> py_len v = Inr n \<and> 5 < n))
                   \<and> (T = [] \<and> st = FINISHED \<longrightarrow>
                        \<not> (\<exists>content v n. [scores_file \<mapsto> ''{}'', incorrect_file \<mapsto> six_entries] incorrect_file = Some content
                             \<and> json_loads (example_env (PDict [(''loss'', PInt 1)]) 0) content = Inr v \<and> py_len v = Inr n
                             \<and> 5 < n)))))))"
proof -
  have a: "process_invoked (calls (example_env (PDict [(''loss'', PInt 1)]) 0)
      [scores_file \<mapsto> ''{}'', incorrect_file \<mapsto> six_entries])"
    by (simp add: model_defs process_invoked_def)
  have b: "[scores_file \<mapsto> ''{}'', incorrect_file \<mapsto> six_entries] incorrect_file = Some six_entries"
    by simp
  have c: "json_loads (example_env (PDict [(''loss'', PInt 1)]) 0) six_entries
     = Inr (PList [PInt 1, PInt 2, PInt 3, PInt 4, PInt 5, PInt 6])"
    by (simp add: example_env_def example_json_loads_def six_entries_def utf8_valid_def)
  have d: "py_len (PList [PInt 1, PInt 2, PInt 3, PInt 4, PInt 5, PInt 6]) = Inr 6"
    by simp
  have e: "outcome (example_env (PDict [(''loss'', PInt 1)]) 0)
       [scores_file \<mapsto> ''{}'', incorrect_file \<mapsto> six_entries] = Inr ()"
    by (simp add: model_defs)
  show ?thesis
    by (intro conjI a b c d e steps_are_ordered)
qed

text \<open>
  The claim as it is written fails in two runs. It puts the logging to the tracking
  backend after the evaluation: the two calls \<open>mlflow.log_param("image_size", ...)\<close> and
  \<open>mlflow.log_param("batch_size", ...)\<close> are made before it, as the first run shows. And
  it has every run go through all the steps: in the second run scores.json holds a JSON
  array, the scores step raises, and the branching over incorrect\_predictions.json never
  takes place.
\<close>

theorem steps_order_counterexample:
  "calls (example_env PNone 0) Map.empty
     = [GetEvaluationConfig, NewEvaluation, DagshubInit, StartRun ''Evaluation'',
        LogParam ''image_size'' (Raw (PList [PInt 224, PInt 224, PInt 3])),
        LogParam ''batch_size'' (Raw (PInt 16)),
        RunEvaluation, PathExists ''scores.json'', PathExists ''incorrect_predictions.json'',
        EndRun FINISHED]
   \<and> occurs_before is_log_call (\<lambda>e. e = RunEvaluation) (calls (example_env PNone 0) Map.empty)
   \<and> calls (example_env PNone 0) [scores_file \<mapsto> ''[]'']
     = [GetEvaluationConfig, NewEvaluation, DagshubInit, StartRun ''Evaluation'',
        LogParam ''image_size'' (Raw (PList [PInt 224, PInt 224, PInt 3])),
        LogParam ''batch_size'' (Raw (PInt 16)),
        RunEvaluation, PathExists ''scores.json'', JsonLoad ''scores.json'', EndRun FAILED]
   \<and> PathExists incorrect_file \<notin> set (calls (example_env PNone 0) [scores_file \<mapsto> ''[]''])"
  by (simp add: model_defs)

end
